theory Spec2Isabelle
  imports Complex_Main
begin

section \<open>JavaScript values and strings\<close>

text \<open>
  A property of a JavaScript object is absent (\<open>undefined\<close>), \<open>null\<close> or a value.
  The difference matters at the store: the client serialises an object as JSON, which
  drops the properties whose value is \<open>undefined\<close> and keeps \<open>null\<close>.

  A string is the list of its code units. A \<open>char\<close> holds the code units
  U+0000 to U+00FF; the case mappings and the white space class below are those of
  ECMAScript on that range.
\<close>

datatype 'a js = Undefined | Null | Val 'a

text \<open>
  The argument of \<open>extractCallInformation\<close> is checked dynamically (\<open>typeof\<close>);
  \<open>VObject\<close> stands for an object, an array or a function.
\<close>

datatype jsvalue =
  VUndefined | VNull | VString string | VNumber int | VBoolean bool | VObject

definition truthy :: "string js \<Rightarrow> bool" where
  "truthy x = (case x of Val s \<Rightarrow> s \<noteq> [] | _ \<Rightarrow> False)"

text \<open>\<open>a || b\<close>: the left operand when it is truthy, else the right one, whatever it is.\<close>

definition js_or :: "string js \<Rightarrow> string js \<Rightarrow> string js" where
  "js_or a b = (if truthy a then a else b)"

definition of_null :: "'a option \<Rightarrow> 'a js" where
  "of_null x = (case x of None \<Rightarrow> Null | Some v \<Rightarrow> Val v)"

definition is_digit :: "char \<Rightarrow> bool" where
  "is_digit c = (c \<in> set ''0123456789'')"

text \<open>\<open>\s\<close>, and what \<open>trim\<close> removes: TAB, LF, VT, FF, CR, SPACE, NBSP.\<close>

definition is_space :: "char \<Rightarrow> bool" where
  "is_space c =
     (c \<in> set [CHR 0x09, CHR 0x0A, CHR 0x0B, CHR 0x0C, CHR 0x0D, CHR 0x20, CHR 0xA0])"

definition upper_letters :: string where
  "upper_letters = ''ABCDEFGHIJKLMNOPQRSTUVWXYZ'' @
     [CHR 0xC0, CHR 0xC1, CHR 0xC2, CHR 0xC3, CHR 0xC4, CHR 0xC5, CHR 0xC6, CHR 0xC7,
      CHR 0xC8, CHR 0xC9, CHR 0xCA, CHR 0xCB, CHR 0xCC, CHR 0xCD, CHR 0xCE, CHR 0xCF,
      CHR 0xD0, CHR 0xD1, CHR 0xD2, CHR 0xD3, CHR 0xD4, CHR 0xD5, CHR 0xD6,
      CHR 0xD8, CHR 0xD9, CHR 0xDA, CHR 0xDB, CHR 0xDC, CHR 0xDD, CHR 0xDE]"

definition lower_letters :: string where
  "lower_letters = ''abcdefghijklmnopqrstuvwxyz'' @
     [CHR 0xE0, CHR 0xE1, CHR 0xE2, CHR 0xE3, CHR 0xE4, CHR 0xE5, CHR 0xE6, CHR 0xE7,
      CHR 0xE8, CHR 0xE9, CHR 0xEA, CHR 0xEB, CHR 0xEC, CHR 0xED, CHR 0xEE, CHR 0xEF,
      CHR 0xF0, CHR 0xF1, CHR 0xF2, CHR 0xF3, CHR 0xF4, CHR 0xF5, CHR 0xF6,
      CHR 0xF8, CHR 0xF9, CHR 0xFA, CHR 0xFB, CHR 0xFC, CHR 0xFD, CHR 0xFE]"

definition lower_char :: "char \<Rightarrow> char" where
  "lower_char c = (case map_of (zip upper_letters lower_letters) c of Some l \<Rightarrow> l | None \<Rightarrow> c)"

definition toLowerCase :: "string \<Rightarrow> string" where
  "toLowerCase s = map lower_char s"

text \<open>
  \<open>toUpperCase\<close> of U+00DF is the two code units \<open>SS\<close>. The images of U+00B5 and
  U+00FF lie beyond U+00FF; the model keeps these two code units as they are.
\<close>

definition upper_char :: "char \<Rightarrow> string" where
  "upper_char c =
     (if c = CHR 0xDF then ''SS''
      else case map_of (zip lower_letters upper_letters) c of Some u \<Rightarrow> [u] | None \<Rightarrow> [c])"

definition toUpperCase :: "string \<Rightarrow> string" where
  "toUpperCase s = concat (map upper_char s)"

text \<open>\<open>s.charAt(0).toUpperCase() + s.slice(1)\<close>; \<open>charAt(0)\<close> of the empty string is empty.\<close>

definition capitalize :: "string \<Rightarrow> string" where
  "capitalize s = toUpperCase (take 1 s) @ drop 1 s"

definition trim :: "string \<Rightarrow> string" where
  "trim s = rev (dropWhile is_space (rev (dropWhile is_space s)))"

text \<open>\<open>s.split(d)\<close> for a separator of one code unit: one piece more than separators.\<close>

fun split_on :: "char \<Rightarrow> string \<Rightarrow> string list" where
  "split_on d [] = [[]]"
| "split_on d (c # cs) =
     (if c = d then [] # split_on d cs
      else (case split_on d cs of [] \<Rightarrow> [[c]] | w # ws \<Rightarrow> (c # w) # ws))"

fun join_with :: "string \<Rightarrow> string list \<Rightarrow> string" where
  "join_with sep [] = []"
| "join_with sep [w] = w"
| "join_with sep (w # v # ws) = w @ sep @ join_with sep (v # ws)"

fun startsWith :: "string \<Rightarrow> string \<Rightarrow> bool" where
  "startsWith s [] = True"
| "startsWith [] (p # ps) = False"
| "startsWith (c # cs) (p # ps) = (c = p \<and> startsWith cs ps)"

fun str_includes :: "string \<Rightarrow> string \<Rightarrow> bool" where
  "str_includes [] sub = (sub = [])"
| "str_includes (c # cs) sub = (startsWith (c # cs) sub \<or> str_includes cs sub)"

text \<open>\<open>s.replace(/\s+/g, ' ')\<close>: every maximal run of white space becomes one space
  (\<open>in_run\<close>: the code unit before was white space).\<close>

fun collapse_from :: "bool \<Rightarrow> string \<Rightarrow> string" where
  "collapse_from in_run [] = []"
| "collapse_from in_run (c # cs) =
     (if is_space c then (if in_run then collapse_from True cs else CHR '' '' # collapse_from True cs)
      else c # collapse_from False cs)"

definition collapse_spaces :: "string \<Rightarrow> string" where
  "collapse_spaces s = collapse_from False s"

section \<open>Regular expressions\<close>

text \<open>
  The patterns of the extractors use literals, character classes, greedy and lazy
  repetition of a class, alternation, \<open>$\<close> and one capture group, all with the flag
  \<open>i\<close>. \<open>rx_run\<close> is the backtracking matcher of ECMAScript on these constructs: the
  continuation is the rest of the pattern, alternatives are tried left to right, a greedy
  repetition tries the longest run first and a lazy one the shortest. With the flag a
  literal letter matches both of its cases; the literals and classes of the patterns are
  ASCII, and no code unit from U+0080 on matches an ASCII letter.
\<close>

datatype rx =
    Lit string
  | One "char \<Rightarrow> bool"
  | Star "char \<Rightarrow> bool"
  | LazyStar "char \<Rightarrow> bool"
  | Eos
  | Seq rx rx
  | Alt rx rx
  | Cap rx

definition ascii_lower :: "char \<Rightarrow> char" where
  "ascii_lower c =
     (case map_of (zip ''ABCDEFGHIJKLMNOPQRSTUVWXYZ'' ''abcdefghijklmnopqrstuvwxyz'') c of
        Some l \<Rightarrow> l | None \<Rightarrow> c)"

fun lit_prefix :: "string \<Rightarrow> string \<Rightarrow> string option" where
  "lit_prefix [] s = Some s"
| "lit_prefix (l # ls) [] = None"
| "lit_prefix (l # ls) (c # cs) =
     (if ascii_lower c = ascii_lower l then lit_prefix ls cs else None)"

fun star_greedy :: "(char \<Rightarrow> bool) \<Rightarrow> string \<Rightarrow> (string \<Rightarrow> 'r option) \<Rightarrow> 'r option" where
  "star_greedy p [] k = k []"
| "star_greedy p (c # cs) k =
     (if p c then (case star_greedy p cs k of Some r \<Rightarrow> Some r | None \<Rightarrow> k (c # cs))
      else k (c # cs))"

fun star_lazy :: "(char \<Rightarrow> bool) \<Rightarrow> string \<Rightarrow> (string \<Rightarrow> 'r option) \<Rightarrow> 'r option" where
  "star_lazy p [] k = k []"
| "star_lazy p (c # cs) k =
     (case k (c # cs) of Some r \<Rightarrow> Some r
      | None \<Rightarrow> if p c then star_lazy p cs k else None)"

text \<open>
  \<open>rx_run r s cap k\<close>: match \<open>r\<close> at the front of \<open>s\<close>, then call \<open>k\<close> on what is left
  and on the capture so far; \<open>None\<close> makes the matcher backtrack.
\<close>

fun rx_run :: "rx \<Rightarrow> string \<Rightarrow> string option \<Rightarrow>
    (string \<Rightarrow> string option \<Rightarrow> (string option) option) \<Rightarrow> (string option) option" where
  "rx_run (Lit l) s cap k = (case lit_prefix l s of Some s' \<Rightarrow> k s' cap | None \<Rightarrow> None)"
| "rx_run (One p) s cap k =
     (case s of [] \<Rightarrow> None | c # cs \<Rightarrow> if p c then k cs cap else None)"
| "rx_run (Star p) s cap k = star_greedy p s (\<lambda>s'. k s' cap)"
| "rx_run (LazyStar p) s cap k = star_lazy p s (\<lambda>s'. k s' cap)"
| "rx_run Eos s cap k = (if s = [] then k s cap else None)"
| "rx_run (Seq a b) s cap k = rx_run a s cap (\<lambda>s' cap'. rx_run b s' cap' k)"
| "rx_run (Alt a b) s cap k =
     (case rx_run a s cap k of Some r \<Rightarrow> Some r | None \<Rightarrow> rx_run b s cap k)"
| "rx_run (Cap a) s cap k =
     rx_run a s cap (\<lambda>s' cap'. k s' (Some (take (length s - length s') s)))"

text \<open>
  \<open>s.match(r)\<close> without the flag \<open>g\<close>: the first start position with a match, from the
  left. The result is \<open>None\<close> for \<open>null\<close>, else the value of group 1 (the only part of
  the match the extractors read).
\<close>

fun js_match :: "string \<Rightarrow> rx \<Rightarrow> (string option) option" where
  "js_match [] r = rx_run r [] None (\<lambda>s' cap. Some cap)"
| "js_match (c # cs) r =
     (case rx_run r (c # cs) None (\<lambda>s' cap. Some cap) of
        Some m \<Rightarrow> Some m
      | None \<Rightarrow> js_match cs r)"

definition alts :: "rx list \<Rightarrow> rx" where
  "alts rs = foldr Alt (butlast rs) (last rs)"

definition seqs :: "rx list \<Rightarrow> rx" where
  "seqs rs = foldr Seq (butlast rs) (last rs)"

definition plus :: "(char \<Rightarrow> bool) \<Rightarrow> rx" where
  "plus p = Seq (One p) (Star p)"

definition lazy_plus :: "(char \<Rightarrow> bool) \<Rightarrow> rx" where
  "lazy_plus p = Seq (One p) (LazyStar p)"

text \<open>\<open>[a-z\s]\<close>, \<open>[^.]\<close> and \<open>[\d\s\-\(\)]\<close> under the flag \<open>i\<close>.\<close>

definition letter_or_space :: "char \<Rightarrow> bool" where
  "letter_or_space c = (ascii_lower c \<in> set ''abcdefghijklmnopqrstuvwxyz'' \<or> is_space c)"

definition not_dot :: "char \<Rightarrow> bool" where
  "not_dot c = (c \<noteq> CHR ''.'')"

definition phone_class :: "char \<Rightarrow> bool" where
  "phone_class c =
     (is_digit c \<or> is_space c \<or> c = CHR ''-'' \<or> c = CHR ''('' \<or> c = CHR '')'')"

text \<open>\<open>(?:\s|,|\.|$)\<close> and \<open>(?:\s+and|\s+but|\s+or|,|\.|$)\<close>.\<close>

definition boundary :: rx where
  "boundary = alts [One is_space, Lit '','', Lit ''.'', Eos]"

definition name_boundary :: rx where
  "name_boundary =
     alts [Seq (plus is_space) (Lit ''and''), Seq (plus is_space) (Lit ''but''),
           Seq (plus is_space) (Lit ''or''), Lit '','', Lit ''.'', Eos]"

section \<open>Canonical phone format\<close>

definition formatPhoneNumber :: "string \<Rightarrow> string" where
  "formatPhoneNumber phone =
     (let cleaned = filter is_digit phone in
      if length cleaned = 10 then ''+1'' @ cleaned
      else if length cleaned = 11 \<and> startsWith cleaned ''1'' then ''+'' @ cleaned
      else if length cleaned = 11 then ''+'' @ cleaned
      else ''+'' @ cleaned)"

text \<open>
  \<open>normalizePhoneNumber\<close> of the webhook controller. Its guard \<open>!phoneNumber\<close> holds for
  \<open>undefined\<close>, \<open>null\<close> and the empty string; the result \<open>None\<close> is \<open>null\<close>.
\<close>

definition normalizePhoneNumber :: "string js \<Rightarrow> string option" where
  "normalizePhoneNumber phoneNumber =
     (if \<not> truthy phoneNumber then None
      else case phoneNumber of
        Val s \<Rightarrow>
          (let cleaned = filter is_digit s in
           if length cleaned = 10 then Some (''+1'' @ cleaned)
           else if length cleaned = 11 \<and> startsWith cleaned ''1'' then Some (''+'' @ cleaned)
           else if length cleaned = 11 then Some (''+'' @ cleaned)
           else Some (''+'' @ cleaned))
      | _ \<Rightarrow> None)"

text \<open>
  The canonical format in the specification's words: strip all non-digit characters,
  then prefix \<open>+1\<close> if 10 digits remain, else prefix \<open>+\<close>.
\<close>

definition canonical_phone_format :: "string \<Rightarrow> string" where
  "canonical_phone_format s =
     (if length (filter is_digit s) = 10 then ''+1'' @ filter is_digit s
      else ''+'' @ filter is_digit s)"

section \<open>Extraction\<close>

subsection \<open>Summary\<close>

text \<open>\<open>createCallSummary\<close>; \<open>None\<close> is \<open>null\<close>, and \<open>!reason\<close> also holds for the empty string.\<close>

definition createCallSummary :: "string option \<Rightarrow> string" where
  "createCallSummary reason =
     (case reason of
        None \<Rightarrow> ''Customer inquiry''
      | Some r \<Rightarrow>
          if r = [] then ''Customer inquiry''
          else
            (let words = filter (\<lambda>word. length word > 0) (split_on CHR '' '' r) in
             if length words \<le> 10 then r
             else join_with '' '' (take 10 words) @ ''...''))"

subsection \<open>Name\<close>

definition capitalize_words :: "string \<Rightarrow> string" where
  "capitalize_words name = join_with '' '' (map capitalize (split_on CHR '' '' name))"

definition confirmationPattern :: rx where
  "confirmationPattern =
     seqs [Lit ''information:'', plus is_space, Cap (lazy_plus letter_or_space), boundary]"

definition namePatterns :: "rx list" where
  "namePatterns =
    [seqs [alts [Lit ''my name is'', Lit ''i'm'', Lit ''i am'', Lit ''this is'', Lit ''call me''],
           plus is_space, Cap (lazy_plus letter_or_space), name_boundary],
     seqs [alts [Lit ''name is'', Lit ''call me''],
           plus is_space, Cap (lazy_plus letter_or_space), name_boundary],
     seqs [alts [Lit ''i'm'', Lit ''i am''],
           plus is_space, Cap (lazy_plus letter_or_space), name_boundary],
     seqs [Lit ''my name is'',
           plus is_space, Cap (lazy_plus letter_or_space), name_boundary]]"

definition nameFallbackPattern :: rx where
  "nameFallbackPattern = seqs [Lit ''name'', plus is_space, Cap (lazy_plus not_dot), boundary]"

text \<open>
  The body of each \<open>for\<close> loop over a pattern table is a recursion over the table: the
  first pattern whose capture passes the filter returns, the others fall through.
  \<open>match && match[1]\<close> holds when the pattern matches and group 1 is a non-empty string.
\<close>

fun name_loop :: "rx list \<Rightarrow> string \<Rightarrow> string option" where
  "name_loop [] transcript = None"
| "name_loop (pattern # rest) transcript =
     (case js_match transcript pattern of
        Some (Some g) \<Rightarrow>
          if g \<noteq> [] then
            (let name = trim g in
             if length name > 2 \<and>
                toLowerCase name \<notin> set [''the'', ''and'', ''but'', ''for'', ''with'', ''is'', ''a'']
             then Some (capitalize_words name)
             else name_loop rest transcript)
          else name_loop rest transcript
      | _ \<Rightarrow> name_loop rest transcript)"

definition name_fallback :: "string \<Rightarrow> string option" where
  "name_fallback transcript =
     (case js_match transcript nameFallbackPattern of
        Some (Some g) \<Rightarrow>
          if g \<noteq> [] \<and> length (trim g) > 2 then Some (capitalize_words (trim g)) else None
      | _ \<Rightarrow> None)"

definition name_confirmation :: "string \<Rightarrow> string option" where
  "name_confirmation transcript =
     (case js_match transcript confirmationPattern of
        Some (Some g) \<Rightarrow>
          if g \<noteq> [] \<and> length (trim g) > 2 then Some (capitalize (trim g)) else None
      | _ \<Rightarrow> None)"

definition extractName :: "string \<Rightarrow> string option" where
  "extractName transcript =
     (case name_confirmation transcript of
        Some name \<Rightarrow> Some name
      | None \<Rightarrow>
          (case name_loop namePatterns transcript of
             Some name \<Rightarrow> Some name
           | None \<Rightarrow> name_fallback transcript))"

subsection \<open>Phone\<close>

definition phonePatterns :: "rx list" where
  "phonePatterns =
    [seqs [alts [Lit ''my number is'', Lit ''phone number is'', Lit ''call me at'',
                 Lit ''reach me at'', Lit ''my phone is''],
           Star is_space, Cap (plus phone_class)],
     seqs [alts [Lit ''number is'', Lit ''phone is'', Lit ''call me at''],
           Star is_space, Cap (plus phone_class)],
     seqs [alts [Lit ''it's'', Lit ''it is''],
           Star is_space, Cap (plus phone_class)]]"

fun phone_loop :: "rx list \<Rightarrow> string \<Rightarrow> string option" where
  "phone_loop [] transcript = None"
| "phone_loop (pattern # rest) transcript =
     (case js_match transcript pattern of
        Some (Some g) \<Rightarrow>
          if g \<noteq> [] then
            (let phone = filter is_digit g in
             if length phone \<ge> 7 \<and> length phone \<le> 15 then Some (formatPhoneNumber phone)
             else phone_loop rest transcript)
          else phone_loop rest transcript
      | _ \<Rightarrow> phone_loop rest transcript)"

definition extractPhoneNumber :: "string \<Rightarrow> string option" where
  "extractPhoneNumber transcript = phone_loop phonePatterns transcript"

subsection \<open>Address\<close>

definition addressPatterns :: "rx list" where
  "addressPatterns =
    [seqs [alts [Lit ''i live at'', Lit ''my address is'', Lit ''located at'', Lit ''address is''],
           plus is_space, Cap (lazy_plus not_dot), boundary],
     seqs [Lit ''live at'', plus is_space, Cap (lazy_plus not_dot), boundary],
     seqs [Lit ''address'', plus is_space, Cap (lazy_plus not_dot), boundary],
     seqs [Lit ''at'', plus is_space, Cap (lazy_plus not_dot), boundary]]"

definition addressConfirmationPattern :: rx where
  "addressConfirmationPattern =
     seqs [Lit ''address'', plus is_space, Cap (lazy_plus not_dot), boundary]"

definition streetPattern :: rx where
  "streetPattern =
     seqs [alts [Lit ''street'', Lit ''avenue'', Lit ''road'', Lit ''drive'', Lit ''lane'',
                 Lit ''way'', Lit ''blvd'', Lit ''st'', Lit ''ave'', Lit ''rd'', Lit ''dr'',
                 Lit ''ln'', Lit ''blvd''],
           plus is_space, Cap (lazy_plus not_dot), boundary]"

fun address_loop :: "rx list \<Rightarrow> string \<Rightarrow> string option" where
  "address_loop [] transcript = None"
| "address_loop (pattern # rest) transcript =
     (case js_match transcript pattern of
        Some (Some g) \<Rightarrow>
          if g \<noteq> [] then
            (let address = trim g in
             if length address > 5 \<and>
                toLowerCase address \<notin> set [''the'', ''and'', ''but'', ''for'', ''with'']
             then Some (capitalize address)
             else address_loop rest transcript)
          else address_loop rest transcript
      | _ \<Rightarrow> address_loop rest transcript)"

definition address_single :: "rx \<Rightarrow> string \<Rightarrow> string option" where
  "address_single pattern transcript =
     (case js_match transcript pattern of
        Some (Some g) \<Rightarrow>
          if g \<noteq> [] \<and> length (trim g) > 5 then Some (capitalize (trim g)) else None
      | _ \<Rightarrow> None)"

definition extractAddress :: "string \<Rightarrow> string option" where
  "extractAddress transcript =
     (case address_loop addressPatterns transcript of
        Some address \<Rightarrow> Some address
      | None \<Rightarrow>
          (case address_single addressConfirmationPattern transcript of
             Some address \<Rightarrow> Some address
           | None \<Rightarrow> address_single streetPattern transcript))"

subsection \<open>Reason\<close>

definition servicePatterns :: "rx list" where
  "servicePatterns =
    [seqs [alts [Lit ''calling about'', Lit ''need help with'', Lit ''reason for calling'',
                 Lit ''i need'', Lit ''looking for'', Lit ''want to''],
           Star is_space, Cap (lazy_plus not_dot), boundary],
     seqs [alts [Lit ''need'', Lit ''want'', Lit ''help with''],
           Star is_space, Cap (lazy_plus not_dot), boundary],
     seqs [alts [Lit ''because'', Lit ''since''],
           Star is_space, Cap (lazy_plus not_dot), boundary],
     seqs [alts [Lit ''about'', Lit ''regarding''],
           Star is_space, Cap (lazy_plus not_dot), boundary],
     seqs [alts [Lit ''schedule'', Lit ''book'', Lit ''appointment''],
           Star is_space, Cap (lazy_plus not_dot), boundary]]"

definition businessServices :: "string list" where
  "businessServices =
     [''plumbing'', ''hvac'', ''electrical'', ''tree removal'', ''landscaping'',
      ''cleaning'', ''repair'', ''maintenance'', ''installation'', ''inspection'']"

definition reasonConfirmationPattern :: rx where
  "reasonConfirmationPattern =
     seqs [alts [Lit ''reason'', Lit ''need''], plus is_space, Cap (lazy_plus not_dot), boundary]"

fun reason_loop :: "rx list \<Rightarrow> string \<Rightarrow> string option" where
  "reason_loop [] transcript = None"
| "reason_loop (pattern # rest) transcript =
     (case js_match transcript pattern of
        Some (Some g) \<Rightarrow>
          if g \<noteq> [] then
            (let reason = trim g in
             if length reason > 3 then Some (capitalize reason)
             else reason_loop rest transcript)
          else reason_loop rest transcript
      | _ \<Rightarrow> reason_loop rest transcript)"

fun service_loop :: "string list \<Rightarrow> string \<Rightarrow> string option" where
  "service_loop [] transcript = None"
| "service_loop (service # rest) transcript =
     (if str_includes transcript service then
        (if str_includes transcript ''maintenance'' \<or> str_includes transcript ''routine''
         then Some (capitalize service @ '' maintenance'')
         else if str_includes transcript ''repair'' \<or> str_includes transcript ''fix''
         then Some (capitalize service @ '' repair'')
         else if str_includes transcript ''installation'' \<or> str_includes transcript ''install''
         then Some (capitalize service @ '' installation'')
         else Some (capitalize service @ '' service''))
      else service_loop rest transcript)"

definition reason_fallback :: "string \<Rightarrow> string option" where
  "reason_fallback transcript =
     (case js_match transcript reasonConfirmationPattern of
        Some (Some g) \<Rightarrow>
          if g \<noteq> [] \<and> length (trim g) > 3 then Some (capitalize (trim g)) else None
      | _ \<Rightarrow> None)"

text \<open>The strategies of \<open>extractReason\<close> that follow the emergency branch.\<close>

definition later_reason :: "string \<Rightarrow> string option" where
  "later_reason transcript =
     (case reason_loop servicePatterns transcript of
        Some reason \<Rightarrow> Some reason
      | None \<Rightarrow>
          (case service_loop businessServices transcript of
             Some reason \<Rightarrow> Some reason
           | None \<Rightarrow> reason_fallback transcript))"

definition extractReason :: "string \<Rightarrow> string option" where
  "extractReason transcript =
     (if str_includes transcript ''emergency'' \<or> str_includes transcript ''urgent'' \<or>
         str_includes transcript ''storm''
      then
        (if str_includes transcript ''plumbing'' \<or> str_includes transcript ''sink'' \<or>
            str_includes transcript ''water''
         then Some ''Emergency plumbing service''
         else if str_includes transcript ''tree'' \<or> str_includes transcript ''branch''
         then Some ''Emergency tree removal''
         else if str_includes transcript ''electrical'' \<or> str_includes transcript ''power''
         then Some ''Emergency electrical service''
         else Some ''Emergency service request'')
      else later_reason transcript)"

text \<open>
  The strategies that \<open>extractReason\<close> reaches on a transcript, in the order of its code:
  the emergency branch returns on every path, and each later strategy returns when it
  has a value, so that the ones after it are reached only when it has none.
\<close>

datatype strategy = EmergencyKeywords | IntentPatterns | ServiceVocabulary | FallbackClause

definition strategies_consulted :: "string \<Rightarrow> strategy list" where
  "strategies_consulted transcript =
     (if str_includes transcript ''emergency'' \<or> str_includes transcript ''urgent'' \<or>
         str_includes transcript ''storm''
      then [EmergencyKeywords]
      else EmergencyKeywords #
        (case reason_loop servicePatterns transcript of
           Some reason \<Rightarrow> [IntentPatterns]
         | None \<Rightarrow> IntentPatterns #
             (case service_loop businessServices transcript of
                Some reason \<Rightarrow> [ServiceVocabulary]
              | None \<Rightarrow> [ServiceVocabulary, FallbackClause])))"

subsection \<open>The extraction engine\<close>

record extracted =
  name :: "string js"
  e_callback_number :: "string js"
  e_address :: "string js"
  e_reason :: "string js"
  e_call_summary :: "string js"

definition all_null :: extracted where
  "all_null = \<lparr>name = Null, e_callback_number = Null, e_address = Null, e_reason = Null,
                e_call_summary = Null\<rparr>"

definition extractCallInformation :: "jsvalue \<Rightarrow> extracted" where
  "extractCallInformation transcript =
     (case transcript of
        VString t \<Rightarrow>
          if t = [] then all_null
          else
            (let cleanTranscript = collapse_spaces (toLowerCase t);
                 reason = extractReason cleanTranscript in
             \<lparr>name = of_null (extractName cleanTranscript),
              e_callback_number = of_null (extractPhoneNumber cleanTranscript),
              e_address = of_null (extractAddress cleanTranscript),
              e_reason = of_null reason,
              e_call_summary = Val (createCallSummary reason)\<rparr>)
      | _ \<Rightarrow> all_null)"

subsection \<open>Word lists, in the specification's words\<close>

text \<open>
  The words of a text: its maximal runs of code units that are not separators.
  \<open>whitespace_words\<close> separates at white space, \<open>space_words\<close> at U+0020 only.
\<close>

fun words_acc :: "(char \<Rightarrow> bool) \<Rightarrow> string \<Rightarrow> string \<Rightarrow> string list" where
  "words_acc sep w [] = (if w = [] then [] else [w])"
| "words_acc sep w (c # cs) =
     (if sep c then (if w = [] then words_acc sep [] cs else w # words_acc sep [] cs)
      else words_acc sep (w @ [c]) cs)"

definition whitespace_words :: "string \<Rightarrow> string list" where
  "whitespace_words s = words_acc is_space [] s"

definition space_words :: "string \<Rightarrow> string list" where
  "space_words s = words_acc (\<lambda>c. c = CHR '' '') [] s"

text \<open>
  The reasons that reach \<open>createCallSummary\<close>: it is not exported, and its one call
  passes the result of \<open>extractReason\<close> on the cleaned transcript, in which every run
  of white space has become one U+0020. \<open>plain_spaces\<close> says that a text has no other
  white space than U+0020.
\<close>

definition plain_spaces :: "string \<Rightarrow> bool" where
  "plain_spaces s = list_all (\<lambda>c. is_space c \<longrightarrow> c = CHR '' '') s"

section \<open>The record store\<close>

text \<open>
  The store is an external service, reached through a client. A request either is
  served, or the client returns an error object (\<open>{data: null, error}\<close>), or the call
  throws. Which of the three happens is not decided by the program: it is the outcome
  of the request, given by the environment. The errors the store raises for reasons of
  its own (a value that does not fit its column, a broken connection) are outcomes
  \<open>Refused\<close> or \<open>Thrown\<close>; a request with such an outcome leaves the table as it is.
  A served request fails only for the two reasons the program's control flow depends on:
  \<open>.single()\<close> when not exactly one row is selected, and an insert under a key that is
  taken (\<open>calls.id\<close> is the primary key, \<open>call_analytics\<close> is unique in business and date).

  A table with a unique key is a map from the key to the other columns of the row; the
  rows a request returns are pairs of the key and these columns.
\<close>

datatype outcome = Served | Refused string | Thrown string

datatype 'a reply = Data 'a | ErrorReply string | Raised string

definition no_single_row :: string where
  "no_single_row = ''JSON object requested, multiple (or no) rows returned''"

definition duplicate_key :: string where
  "duplicate_key = ''duplicate key value violates unique constraint''"

text \<open>\<open>.select(..).eq(key).single()\<close> on a table with a unique key.\<close>

definition select_single :: "outcome \<Rightarrow> ('k \<rightharpoonup> 'v) \<Rightarrow> 'k \<Rightarrow> ('k \<times> 'v) reply" where
  "select_single out table k =
     (case out of
        Thrown m \<Rightarrow> Raised m
      | Refused m \<Rightarrow> ErrorReply m
      | Served \<Rightarrow> (case table k of None \<Rightarrow> ErrorReply no_single_row | Some row \<Rightarrow> Data (k, row)))"

text \<open>\<open>.update(f).eq(key).select().single()\<close>: no row under the key is an error of \<open>single\<close>.\<close>

definition update_returning ::
    "outcome \<Rightarrow> ('k \<rightharpoonup> 'v) \<Rightarrow> 'k \<Rightarrow> ('v \<Rightarrow> 'v) \<Rightarrow> ('k \<times> 'v) reply \<times> ('k \<rightharpoonup> 'v)" where
  "update_returning out table k f =
     (case out of
        Thrown m \<Rightarrow> (Raised m, table)
      | Refused m \<Rightarrow> (ErrorReply m, table)
      | Served \<Rightarrow>
          (case table k of
             None \<Rightarrow> (ErrorReply no_single_row, table)
           | Some row \<Rightarrow> (Data (k, f row), table(k \<mapsto> f row))))"

text \<open>\<open>.update(f).eq(key)\<close>: no row under the key is no error.\<close>

definition update_rows ::
    "outcome \<Rightarrow> ('k \<rightharpoonup> 'v) \<Rightarrow> 'k \<Rightarrow> ('v \<Rightarrow> 'v) \<Rightarrow> unit reply \<times> ('k \<rightharpoonup> 'v)" where
  "update_rows out table k f =
     (case out of
        Thrown m \<Rightarrow> (Raised m, table)
      | Refused m \<Rightarrow> (ErrorReply m, table)
      | Served \<Rightarrow>
          (case table k of
             None \<Rightarrow> (Data (), table)
           | Some row \<Rightarrow> (Data (), table(k \<mapsto> f row))))"

text \<open>\<open>.insert(row)\<close>, with or without \<open>.select().single()\<close>.\<close>

definition insert_row ::
    "outcome \<Rightarrow> ('k \<rightharpoonup> 'v) \<Rightarrow> 'k \<Rightarrow> 'v \<Rightarrow> ('k \<times> 'v) reply \<times> ('k \<rightharpoonup> 'v)" where
  "insert_row out table k row =
     (case out of
        Thrown m \<Rightarrow> (Raised m, table)
      | Refused m \<Rightarrow> (ErrorReply m, table)
      | Served \<Rightarrow>
          (case table k of
             None \<Rightarrow> (Data (k, row), table(k \<mapsto> row))
           | Some old \<Rightarrow> (ErrorReply duplicate_key, table)))"

subsection \<open>Tables\<close>

record business =
  b_id :: string
  business_name :: string
  owner_phone :: string
  slack_webhook_url :: "string js"
  phone_number :: string
  is_active :: bool

text \<open>
  A row of \<open>calls\<close>, under its \<open>id\<close>; \<open>None\<close> is SQL \<open>NULL\<close>. The cost is kept as the exact rational
  number: the floating point arithmetic of the program and the rounding of the column to
  four decimals are not modelled.
\<close>

record call =
  business_id :: "string option"
  caller_name :: "string option"
  callback_number :: "string option"
  address :: "string option"
  reason :: "string option"
  call_summary :: "string option"
  recording_url :: "string option"
  transcript_text :: "string option"
  duration :: "int option"
  cost :: "rat option"
  call_status :: "string option"
  notification_sent :: "bool option"
  from_number :: "string option"
  to_number :: "string option"
  created_at :: "string option"

text \<open>
  A row of \<open>call_analytics\<close>, under its \<open>business_id\<close> and \<open>date\<close>, with the
  three counters the program writes (\<open>total_duration\<close> and \<open>total_cost\<close> are never
  written).
\<close>

record analytics =
  total_calls :: int
  successful_notifications :: int
  failed_notifications :: int

record db =
  businesses :: "business list"
  calls :: "string \<rightharpoonup> call"
  call_analytics :: "string \<times> string \<rightharpoonup> analytics"

text \<open>
  What one delivery of an event meets: the date and time, whether the Slack endpoint
  answers with status 200, and the outcome of each request to the store.
\<close>

record env =
  today :: string
  now :: string
  slack_status_200 :: bool
  o_find_business :: outcome
  o_select_call :: outcome
  o_write_call :: outcome
  o_update_status :: outcome
  o_update_notification :: outcome
  o_select_analytics :: outcome
  o_write_analytics :: outcome

subsection \<open>Writing a call row\<close>

text \<open>
  The object \<open>callData\<close>. In the JSON sent to the store a property that is
  \<open>undefined\<close> is left out: an update keeps the column, an insert takes its default;
  \<open>null\<close> is written as \<open>NULL\<close>.
\<close>

record call_data =
  d_business_id :: string
  d_caller_name :: "string js"
  d_callback_number :: "string js"
  d_address :: "string js"
  d_reason :: "string js"
  d_call_summary :: "string js"
  d_recording_url :: "string js"
  d_transcript_text :: "string js"
  d_duration :: int
  d_call_status :: "string js"
  d_from_number :: "string js"
  d_to_number :: "string js"
  d_cost :: rat

definition set_column :: "'a js \<Rightarrow> 'a option \<Rightarrow> 'a option" where
  "set_column x old = (case x of Undefined \<Rightarrow> old | Null \<Rightarrow> None | Val v \<Rightarrow> Some v)"

definition write_call_data :: "call_data \<Rightarrow> call \<Rightarrow> call" where
  "write_call_data d row =
     row\<lparr>business_id := Some (d_business_id d),
         caller_name := set_column (d_caller_name d) (caller_name row),
         callback_number := set_column (d_callback_number d) (callback_number row),
         address := set_column (d_address d) (address row),
         reason := set_column (d_reason d) (reason row),
         call_summary := set_column (d_call_summary d) (call_summary row),
         recording_url := set_column (d_recording_url d) (recording_url row),
         transcript_text := set_column (d_transcript_text d) (transcript_text row),
         duration := Some (d_duration d),
         cost := Some (d_cost d),
         call_status := set_column (d_call_status d) (call_status row),
         from_number := set_column (d_from_number d) (from_number row),
         to_number := set_column (d_to_number d) (to_number row)\<rparr>"

text \<open>The column defaults of \<open>calls\<close>; \<open>created_at\<close> defaults to the time of the insert.\<close>

definition default_call :: "string \<Rightarrow> call" where
  "default_call created =
     \<lparr>business_id = None, caller_name = None, callback_number = None,
      address = None, reason = None, call_summary = None, recording_url = None,
      transcript_text = None, duration = None, cost = None,
      call_status = Some ''completed'', notification_sent = Some False,
      from_number = None, to_number = None, created_at = Some created\<rparr>"

section \<open>The webhook controller\<close>

record webhook =
  call_id :: string
  event_type :: "string js"
  w_call_status :: "string js"
  transcript :: "string js"
  w_transcript_text :: "string js"
  conversation :: "string js"
  w_call_summary :: "string js"
  summary :: "string js"
  w_recording_url :: "string js"
  w_from_number :: "string js"
  w_to_number :: "string js"
  call_duration :: "int js"

datatype error =
    BusinessNotFound "string js"
  | FailedToUpdateCall string
  | FailedToCreateCall string
  | FailedToUpdateCallStatus string
  | Exception string

record result =
  success :: bool
  r_call_id :: string
  r_business_id :: string
  r_event_type :: "string option"
  notifications_sent :: "bool option"
  extracted_info :: "extracted option"
  message :: "string option"

text \<open>
  A function of the controller takes the store and returns its result, or the error it
  throws, with the store it leaves. A call record (\<open>callRecord\<close>) is a returned row: the pair of
  its \<open>id\<close> and its columns. Logging is not part of the state; a \<open>catch\<close> block
  that logs and throws the error again leaves the result as it is, and one that only logs
  turns the error into a normal return:
\<close>

definition catch_and_log :: "(error + unit) \<times> db \<Rightarrow> (error + unit) \<times> db" where
  "catch_and_log r = (case r of (Inl e, d) \<Rightarrow> (Inr (), d) | (Inr u, d) \<Rightarrow> (Inr u, d))"

text \<open>
  The client writes a filter value into the request as text, \<open>null\<close> as the four letters.
\<close>

definition filter_text :: "string option \<Rightarrow> string" where
  "filter_text v = (case v of None \<Rightarrow> ''null'' | Some s \<Rightarrow> s)"

text \<open>
  \<open>from('businesses').select('*').eq('phone_number', p).eq('is_active', true).single()\<close>
\<close>

definition select_business :: "outcome \<Rightarrow> business list \<Rightarrow> string option \<Rightarrow> business reply" where
  "select_business out table p =
     (case out of
        Thrown m \<Rightarrow> Raised m
      | Refused m \<Rightarrow> ErrorReply m
      | Served \<Rightarrow>
          (case filter (\<lambda>b. phone_number b = filter_text p \<and> is_active b = True) table of
             [b] \<Rightarrow> Data b
           | _ \<Rightarrow> ErrorReply no_single_row))"

definition findBusinessByPhoneNumber :: "env \<Rightarrow> db \<Rightarrow> string js \<Rightarrow> business option" where
  "findBusinessByPhoneNumber e d phoneNumber =
     (let normalizedPhone = normalizePhoneNumber phoneNumber in
      case select_business (o_find_business e) (businesses d) normalizedPhone of
        Raised m \<Rightarrow> None
      | ErrorReply m \<Rightarrow> None
      | Data b \<Rightarrow> Some b)"

definition transcript_of :: "webhook \<Rightarrow> string js" where
  "transcript_of webhookData =
     js_or (js_or (js_or (js_or (transcript webhookData) (w_transcript_text webhookData))
                         (conversation webhookData))
                  (w_call_summary webhookData))
           (summary webhookData)"

definition make_call_data :: "webhook \<Rightarrow> string \<Rightarrow> extracted \<Rightarrow> string js \<Rightarrow> call_data" where
  "make_call_data webhookData businessId extractedInfo callStatus =
     \<lparr>d_business_id = businessId,
      d_caller_name = name extractedInfo,
      d_callback_number = e_callback_number extractedInfo,
      d_address = e_address extractedInfo,
      d_reason = e_reason extractedInfo,
      d_call_summary = e_call_summary extractedInfo,
      d_recording_url = w_recording_url webhookData,
      d_transcript_text = transcript_of webhookData,
      d_duration = (case call_duration webhookData of Val n \<Rightarrow> n | _ \<Rightarrow> 0),
      d_call_status = callStatus,
      d_from_number = w_from_number webhookData,
      d_to_number = w_to_number webhookData,
      d_cost = (case call_duration webhookData of
                  Val n \<Rightarrow> if n \<noteq> 0 then (of_int n / 60) * (91 / 1000) else 0
                | _ \<Rightarrow> 0)\<rparr>"

definition createOrUpdateCall ::
    "env \<Rightarrow> webhook \<Rightarrow> string \<Rightarrow> extracted \<Rightarrow> string js \<Rightarrow> db \<Rightarrow>
     (error + string \<times> call) \<times> db" where
  "createOrUpdateCall e webhookData businessId extractedInfo callStatus d =
     (let callData = make_call_data webhookData businessId extractedInfo callStatus in
      case select_single (o_select_call e) (calls d) (call_id webhookData) of
        Raised m \<Rightarrow> (Inl (Exception m), d)
      | Data existingCall \<Rightarrow>
          (case update_returning (o_write_call e) (calls d) (call_id webhookData)
                  (write_call_data callData) of
             (Raised m, t) \<Rightarrow> (Inl (Exception m), d)
           | (ErrorReply m, t) \<Rightarrow> (Inl (FailedToUpdateCall m), d)
           | (Data row, t) \<Rightarrow> (Inr row, d\<lparr>calls := t\<rparr>))
      | ErrorReply fetchError \<Rightarrow>
          (case insert_row (o_write_call e) (calls d) (call_id webhookData)
                  (write_call_data callData (default_call (now e))) of
             (Raised m, t) \<Rightarrow> (Inl (Exception m), d)
           | (ErrorReply m, t) \<Rightarrow> (Inl (FailedToCreateCall m), d)
           | (Data row, t) \<Rightarrow> (Inr row, d\<lparr>calls := t\<rparr>)))"

definition updateCallStatus ::
    "env \<Rightarrow> string \<Rightarrow> string \<Rightarrow> db \<Rightarrow> (error + string \<times> call) \<times> db" where
  "updateCallStatus e callId status d =
     (case update_returning (o_update_status e) (calls d) callId
             (\<lambda>row. row\<lparr>call_status := Some status\<rparr>) of
        (Raised m, t) \<Rightarrow> (Inl (Exception m), d)
      | (ErrorReply m, t) \<Rightarrow> (Inl (FailedToUpdateCallStatus m), d)
      | (Data row, t) \<Rightarrow> (Inr row, d\<lparr>calls := t\<rparr>))"

definition updateCallNotificationStatus ::
    "env \<Rightarrow> string \<Rightarrow> bool \<Rightarrow> db \<Rightarrow> (error + unit) \<times> db" where
  "updateCallNotificationStatus e callId notificationSent d =
     catch_and_log
       (case update_rows (o_update_notification e) (calls d) callId
               (\<lambda>row. row\<lparr>notification_sent := Some notificationSent\<rparr>) of
          (Raised m, t) \<Rightarrow> (Inl (Exception m), d)
        | (ErrorReply m, t) \<Rightarrow> (Inr (), d)
        | (Data u, t) \<Rightarrow> (Inr (), d\<lparr>calls := t\<rparr>))"

text \<open>The object \<open>updates\<close> of \<open>updateCallAnalytics\<close>.\<close>

record analytics_updates =
  u_total_calls :: "int js"
  u_successful_notifications :: "int js"

definition write_analytics :: "analytics_updates \<Rightarrow> analytics \<Rightarrow> analytics" where
  "write_analytics u row =
     row\<lparr>total_calls := (case u_total_calls u of Val n \<Rightarrow> n | _ \<Rightarrow> total_calls row),
         successful_notifications :=
           (case u_successful_notifications u of
              Val n \<Rightarrow> n | _ \<Rightarrow> successful_notifications row)\<rparr>"

text \<open>
  \<open>eventType\<close> is \<open>None\<close> where the caller passes two arguments; the parameter
  \<open>callCompleted\<close> is not read.
\<close>

definition updateCallAnalytics ::
    "env \<Rightarrow> string \<Rightarrow> bool \<Rightarrow> string option \<Rightarrow> db \<Rightarrow> (error + unit) \<times> db" where
  "updateCallAnalytics e businessId callCompleted eventType d =
     catch_and_log
       (case select_single (o_select_analytics e) (call_analytics d) (businessId, today e) of
          Raised m \<Rightarrow> (Inl (Exception m), d)
        | Data (k, existingAnalytics) \<Rightarrow>
            (let updates0 = \<lparr>u_total_calls = Val (total_calls existingAnalytics + 1),
                             u_successful_notifications = Undefined\<rparr>;
                 updates =
                   (if eventType = Some ''completed'' then
                      updates0\<lparr>u_successful_notifications :=
                                 Val (successful_notifications existingAnalytics + 1)\<rparr>
                    else if eventType = Some ''started'' then
                      updates0\<lparr>u_total_calls := Val (total_calls existingAnalytics + 1)\<rparr>
                    else updates0)
             in case update_rows (o_write_analytics e) (call_analytics d)
                       (businessId, today e) (write_analytics updates) of
                  (Raised m, t) \<Rightarrow> (Inl (Exception m), d)
                | (ErrorReply m, t) \<Rightarrow> (Inr (), d)
                | (Data u, t) \<Rightarrow> (Inr (), d\<lparr>call_analytics := t\<rparr>))
        | ErrorReply fetchError \<Rightarrow>
            (let analyticsData =
                   \<lparr>total_calls = 1,
                    successful_notifications = (if eventType = Some ''completed'' then 1 else 0),
                    failed_notifications = (if eventType = Some ''completed'' then 0 else 1)\<rparr>
             in case insert_row (o_write_analytics e) (call_analytics d)
                       (businessId, today e) analyticsData of
                  (Raised m, t) \<Rightarrow> (Inl (Exception m), d)
                | (ErrorReply m, t) \<Rightarrow> (Inr (), d)
                | (Data row, t) \<Rightarrow> (Inr (), d\<lparr>call_analytics := t\<rparr>)))"

text \<open>
  \<open>sendAllNotifications\<close> of the notification service, reduced to \<open>overall.success\<close>,
  the one part of its result the controller reads. The SMS part only logs and reports
  success; the Slack part is skipped when the business has no webhook URL, and succeeds
  when the endpoint answers 200. The service never throws; its rows in
  \<open>notification_logs\<close> are not part of the state.
\<close>

definition sendAllNotifications :: "env \<Rightarrow> string \<times> call \<Rightarrow> business \<Rightarrow> bool" where
  "sendAllNotifications e callData businessData =
     (let smsSuccess = True;
          slackSuccess =
            (if \<not> truthy (slack_webhook_url businessData) then True else slack_status_200 e)
      in smsSuccess \<and> slackSuccess)"

definition empty_info :: extracted where
  "empty_info = \<lparr>name = Undefined, e_callback_number = Undefined, e_address = Undefined,
                  e_reason = Undefined, e_call_summary = Undefined\<rparr>"

definition handleCallStarted :: "env \<Rightarrow> webhook \<Rightarrow> business \<Rightarrow> db \<Rightarrow> (error + result) \<times> db" where
  "handleCallStarted e webhookData business d =
     (case createOrUpdateCall e webhookData (b_id business) empty_info (Val ''in-progress'') d of
        (Inl err, d1) \<Rightarrow> (Inl err, d1)
      | (Inr callRecord, d1) \<Rightarrow>
          (case updateCallAnalytics e (b_id business) False (Some ''started'') d1 of
             (Inl err, d2) \<Rightarrow> (Inl err, d2)
           | (Inr u, d2) \<Rightarrow>
               (Inr \<lparr>success = True, r_call_id = fst callRecord,
                     r_business_id = b_id business, r_event_type = Some ''call_started'',
                     notifications_sent = None, extracted_info = None,
                     message = Some ''Call started successfully''\<rparr>, d2)))"

definition handleCallEnded :: "env \<Rightarrow> webhook \<Rightarrow> business \<Rightarrow> db \<Rightarrow> (error + result) \<times> db" where
  "handleCallEnded e webhookData business d =
     (case updateCallStatus e (call_id webhookData) ''completed'' d of
        (Inl err, d1) \<Rightarrow> (Inl err, d1)
      | (Inr callRecord, d1) \<Rightarrow>
          (case updateCallAnalytics e (b_id business) True (Some ''completed'') d1 of
             (Inl err, d2) \<Rightarrow> (Inl err, d2)
           | (Inr u, d2) \<Rightarrow>
               (Inr \<lparr>success = True, r_call_id = fst callRecord,
                     r_business_id = b_id business, r_event_type = Some ''call_ended'',
                     notifications_sent = None, extracted_info = None,
                     message = Some ''Call ended successfully''\<rparr>, d2)))"

text \<open>
  The notification step of the analyzed and the legacy handler: send, then record the
  outcome on the call row. It yields \<open>notificationResult.overall.success\<close>.
\<close>

definition notify_and_record ::
    "env \<Rightarrow> string \<times> call \<Rightarrow> business \<Rightarrow> db \<Rightarrow> (error + bool) \<times> db" where
  "notify_and_record e callRecord business d =
     (let notificationResult = sendAllNotifications e callRecord business in
      case updateCallNotificationStatus e (fst callRecord) notificationResult d of
        (Inl err, d1) \<Rightarrow> (Inl err, d1)
      | (Inr u, d1) \<Rightarrow> (Inr notificationResult, d1))"

definition extract_from :: "string js \<Rightarrow> extracted" where
  "extract_from transcriptText =
     (case transcriptText of
        Val t \<Rightarrow> if t \<noteq> [] then extractCallInformation (VString t) else empty_info
      | _ \<Rightarrow> empty_info)"

definition handleCallAnalyzed :: "env \<Rightarrow> webhook \<Rightarrow> business \<Rightarrow> db \<Rightarrow> (error + result) \<times> db" where
  "handleCallAnalyzed e webhookData business d =
     (let extractedInfo = extract_from (transcript_of webhookData) in
      case createOrUpdateCall e webhookData (b_id business) extractedInfo (Val ''completed'') d of
        (Inl err, d1) \<Rightarrow> (Inl err, d1)
      | (Inr callRecord, d1) \<Rightarrow>
          (case (if truthy (e_call_summary extractedInfo)
                 then notify_and_record e callRecord business d1
                 else (Inr False, d1)) of
             (Inl err, d2) \<Rightarrow> (Inl err, d2)
           | (Inr sent, d2) \<Rightarrow>
               (Inr \<lparr>success = True, r_call_id = fst callRecord,
                     r_business_id = b_id business, r_event_type = Some ''call_analyzed'',
                     notifications_sent = Some sent, extracted_info = Some extractedInfo,
                     message = Some ''Call analyzed and notifications sent''\<rparr>, d2)))"

definition handleLegacyWebhook :: "env \<Rightarrow> webhook \<Rightarrow> business \<Rightarrow> db \<Rightarrow> (error + result) \<times> db" where
  "handleLegacyWebhook e webhookData business d =
     (let extractedInfo =
            (if w_call_status webhookData = Val ''completed''
             then extract_from (transcript_of webhookData) else empty_info) in
      case createOrUpdateCall e webhookData (b_id business) extractedInfo
             (w_call_status webhookData) d of
        (Inl err, d1) \<Rightarrow> (Inl err, d1)
      | (Inr callRecord, d1) \<Rightarrow>
          (case (if w_call_status webhookData = Val ''completed''
                 then notify_and_record e callRecord business d1
                 else (Inr False, d1)) of
             (Inl err, d2) \<Rightarrow> (Inl err, d2)
           | (Inr sent, d2) \<Rightarrow>
               (case updateCallAnalytics e (b_id business)
                       (w_call_status webhookData = Val ''completed'') None d2 of
                  (Inl err, d3) \<Rightarrow> (Inl err, d3)
                | (Inr u, d3) \<Rightarrow>
                    (Inr \<lparr>success = True, r_call_id = fst callRecord,
                          r_business_id = b_id business, r_event_type = None,
                          notifications_sent = Some sent,
                          extracted_info = Some extractedInfo, message = None\<rparr>, d3))))"

definition handleRetellWebhook :: "env \<Rightarrow> webhook \<Rightarrow> db \<Rightarrow> (error + result) \<times> db" where
  "handleRetellWebhook e webhookData d =
     (case findBusinessByPhoneNumber e d (w_to_number webhookData) of
        None \<Rightarrow> (Inl (BusinessNotFound (w_to_number webhookData)), d)
      | Some business \<Rightarrow>
          if event_type webhookData = Val ''call_started''
          then handleCallStarted e webhookData business d
          else if event_type webhookData = Val ''call_ended''
          then handleCallEnded e webhookData business d
          else if event_type webhookData = Val ''call_analyzed''
          then handleCallAnalyzed e webhookData business d
          else handleLegacyWebhook e webhookData business d)"

section \<open>A store, an environment and events\<close>

text \<open>
  One active business, one call under the id \<open>call-1\<close> and the counters of the business
  for one day; an environment in which every request is served, and one in which the
  write of the notification outcome is refused and the analytics request throws; one
  event of each kind for that call.
\<close>

definition plumber :: business where
  "plumber = \<lparr>b_id = ''business-123'', business_name = ''Test Plumbing'',
      owner_phone = ''+15550001111'', slack_webhook_url = Null,
      phone_number = ''+15559876543'', is_active = True\<rparr>"

definition all_served :: env where
  "all_served = \<lparr>today = ''2025-03-01'', now = ''2025-03-01T10:00:00Z'',
      slack_status_200 = True, o_find_business = Served, o_select_call = Served,
      o_write_call = Served, o_update_status = Served, o_update_notification = Served,
      o_select_analytics = Served, o_write_analytics = Served\<rparr>"

definition bare_event :: "string js \<Rightarrow> webhook" where
  "bare_event t = \<lparr>call_id = ''call-1'', event_type = t, w_call_status = Undefined,
      transcript = Undefined, w_transcript_text = Undefined, conversation = Undefined,
      w_call_summary = Undefined, summary = Undefined, w_recording_url = Undefined,
      w_from_number = Val ''+15551234567'', w_to_number = Val ''(555) 987-6543'',
      call_duration = Undefined\<rparr>"

definition call_with_status :: "string \<Rightarrow> call" where
  "call_with_status s = (default_call ''2025-03-01T09:00:00Z'')\<lparr>
      business_id := Some ''business-123'', call_status := Some s\<rparr>"

definition store_with :: "string \<Rightarrow> db" where
  "store_with s = \<lparr>businesses = [plumber],
      calls = [''call-1'' \<mapsto> call_with_status s],
      call_analytics = [(''business-123'', ''2025-03-01'') \<mapsto>
        \<lparr>total_calls = 5, successful_notifications = 2, failed_notifications = 1\<rparr>]\<rparr>"

definition analyzed_event :: webhook where
  "analyzed_event = (bare_event (Val ''call_analyzed''))\<lparr>
      transcript := Val ''My name is Sarah Jones and I need help with a clogged drain''\<rparr>"

definition failing_writes :: env where
  "failing_writes = all_served\<lparr>o_update_notification := Refused ''timeout'',
      o_select_analytics := Thrown ''connection lost''\<rparr>"

definition closed_store :: db where
  "closed_store = (store_with ''in-progress'')\<lparr>businesses := [plumber\<lparr>is_active := False\<rparr>]\<rparr>"






definition ended_event :: webhook where
  "ended_event = bare_event (Val ''call_ended'')"

definition legacy_event :: webhook where
  "legacy_event = (bare_event Undefined)\<lparr>w_call_status := Val ''completed'',
      transcript := Val ''My name is Sarah Jones and I need help with a clogged drain''\<rparr>"

section \<open>Properties of the extraction engine\<close>

subsection \<open>Canonical phone format\<close>

text \<open>
  Claim C4, as stated: for every string input, \<open>normalizePhoneNumber\<close> and
  \<open>formatPhoneNumber\<close> return the identical output, the canonical format of the input.
  It fails at the empty string, where the guard of \<open>normalizePhoneNumber\<close> returns
  \<open>null\<close> and \<open>formatPhoneNumber\<close> returns \<open>+\<close>.
\<close>

theorem phone_formats_differ_on_empty:
  "normalizePhoneNumber (Val []) = None \<and> formatPhoneNumber [] = ''+'' \<and>
   canonical_phone_format [] = ''+''"
  by (simp add: formatPhoneNumber_def normalizePhoneNumber_def canonical_phone_format_def
      truthy_def)

text \<open>
  Claim C4, amended: \<open>formatPhoneNumber\<close> returns the canonical format of every string,
  and \<open>normalizePhoneNumber\<close> returns the same output on every non-empty string.
\<close>

theorem phone_formats_agree:
  "formatPhoneNumber s = canonical_phone_format s \<and>
   (s \<noteq> [] \<longrightarrow> normalizePhoneNumber (Val s) = Some (canonical_phone_format s))"
  by (auto simp: formatPhoneNumber_def normalizePhoneNumber_def canonical_phone_format_def
      truthy_def Let_def)

theorem phone_formats_agree_witness:
  "formatPhoneNumber ''(555) 123-4567'' = ''+15551234567'' \<and>
   normalizePhoneNumber (Val ''(555) 123-4567'') = Some ''+15551234567''"
  using phone_formats_agree[of "''(555) 123-4567''"]
  by (simp add: canonical_phone_format_def is_digit_def)

subsection \<open>The emergency branch\<close>

text \<open>
  Claim C6: a transcript that contains \<open>emergency\<close> and \<open>water\<close> has the reason
  \<open>Emergency plumbing service\<close>, whatever else it contains, and the emergency branch
  is the only strategy reached: the intent patterns, the service vocabulary and the
  fallback clause of \<open>later_reason\<close> have no part in the result.
\<close>

theorem emergency_water_reason:
  "str_includes t ''emergency'' \<Longrightarrow> str_includes t ''water'' \<Longrightarrow>
   extractReason t = Some ''Emergency plumbing service'' \<and>
   strategies_consulted t = [EmergencyKeywords]"
  by (simp add: extractReason_def strategies_consulted_def)

theorem emergency_water_reason_witness:
  "str_includes ''emergency, tree fell on the water heater, need electrical repair'' ''emergency'' \<and>
   str_includes ''emergency, tree fell on the water heater, need electrical repair'' ''water'' \<and>
   str_includes ''emergency, tree fell on the water heater, need electrical repair'' ''tree'' \<and>
   extractReason ''emergency, tree fell on the water heater, need electrical repair'' =
     Some ''Emergency plumbing service'' \<and>
   strategies_consulted ''emergency, tree fell on the water heater, need electrical repair'' =
     [EmergencyKeywords]"
proof -
  have a: "str_includes ''emergency, tree fell on the water heater, need electrical repair''
      ''emergency''"
    by simp
  have b: "str_includes ''emergency, tree fell on the water heater, need electrical repair''
      ''water''"
    by simp
  have c: "str_includes ''emergency, tree fell on the water heater, need electrical repair''
      ''tree''"
    by simp
  from a b c emergency_water_reason[OF a b] show ?thesis by blast
qed

subsection \<open>No match\<close>

text \<open>
  Claim C7: when the four field extractors return \<open>null\<close> on the cleaned transcript of a
  non-empty string, \<open>extractCallInformation\<close> returns the four fields \<open>null\<close> and the
  summary \<open>Customer inquiry\<close>; on every input that is not a non-empty string it returns
  the all-null result.
\<close>

theorem extraction_without_match:
  "(t \<noteq> [] \<and> extractName (collapse_spaces (toLowerCase t)) = None \<and>
    extractPhoneNumber (collapse_spaces (toLowerCase t)) = None \<and>
    extractAddress (collapse_spaces (toLowerCase t)) = None \<and>
    extractReason (collapse_spaces (toLowerCase t)) = None \<longrightarrow>
    extractCallInformation (VString t) =
      \<lparr>name = Null, e_callback_number = Null, e_address = Null, e_reason = Null,
       e_call_summary = Val ''Customer inquiry''\<rparr>) \<and>
   ((\<forall>s. v = VString s \<longrightarrow> s = []) \<longrightarrow> extractCallInformation v = all_null)"
  by (cases v) (auto simp: extractCallInformation_def of_null_def createCallSummary_def Let_def)

theorem extraction_without_match_witness:
  "extractCallInformation (VString ''Hello there'') =
      \<lparr>name = Null, e_callback_number = Null, e_address = Null, e_reason = Null,
       e_call_summary = Val ''Customer inquiry''\<rparr> \<and>
   extractCallInformation (VString []) = all_null \<and>
   extractCallInformation (VNumber 7) = all_null"
proof -
  have n: "extractName (collapse_spaces (toLowerCase ''Hello there'')) = None"
    by code_simp
  have p: "extractPhoneNumber (collapse_spaces (toLowerCase ''Hello there'')) = None"
    by code_simp
  have a: "extractAddress (collapse_spaces (toLowerCase ''Hello there'')) = None"
    by code_simp
  have r: "extractReason (collapse_spaces (toLowerCase ''Hello there'')) = None"
    by code_simp
  from extraction_without_match[of "''Hello there''" "VString []"]
    extraction_without_match[of "''Hello there''" "VNumber 7"] n p a r
  show ?thesis by simp
qed

subsection \<open>The summary\<close>

lemma split_on_nonempty: "split_on d s \<noteq> []"
  by (induction s) (auto split: list.splits)

lemma words_acc_split:
  "words_acc (\<lambda>c. c = d) w s =
     filter (\<lambda>word. length word > 0) ((w @ hd (split_on d s)) # tl (split_on d s))"
proof (induction s arbitrary: w)
  case Nil
  then show ?case by simp
next
  case (Cons c cs)
  obtain h t where ht: "split_on d cs = h # t"
    using split_on_nonempty[of d cs] by (cases "split_on d cs") auto
  show ?case
  proof (cases "c = d")
    case True
    show ?thesis using True ht Cons[of "[]"] by simp
  next
    case False
    show ?thesis using False ht Cons[of "w @ [c]"] by simp
  qed
qed

lemma space_words_split:
  "filter (\<lambda>word. word \<noteq> []) (split_on CHR '' '' r) = space_words r"
proof -
  obtain h t where ht: "split_on CHR '' '' r = h # t"
    using split_on_nonempty[of "CHR '' ''" r] by (cases "split_on CHR '' '' r") auto
  show ?thesis
    unfolding space_words_def words_acc_split[of "CHR '' ''" "[]" r] using ht by simp
qed

lemma plain_spaces_iff: "plain_spaces s \<longleftrightarrow> (\<forall>c \<in> set s. is_space c \<longrightarrow> c = CHR '' '')"
  by (simp add: plain_spaces_def list_all_iff)

lemma words_acc_cong:
  "\<forall>c \<in> set s. sep1 c = sep2 c \<Longrightarrow> words_acc sep1 w s = words_acc sep2 w s"
  by (induction s arbitrary: w) auto

lemma whitespace_words_plain:
  assumes "plain_spaces r"
  shows "whitespace_words r = space_words r"
proof -
  have "is_space CHR '' ''" by (simp add: is_space_def)
  with assms have "\<forall>c \<in> set r. is_space c = (c = CHR '' '')"
    by (auto simp: plain_spaces_iff)
  then show ?thesis
    unfolding whitespace_words_def space_words_def by (rule words_acc_cong)
qed

lemma createCallSummary_space_words:
  "createCallSummary None = ''Customer inquiry'' \<and>
   createCallSummary (Some []) = ''Customer inquiry'' \<and>
   (r \<noteq> [] \<and> length (space_words r) \<le> 10 \<longrightarrow> createCallSummary (Some r) = r) \<and>
   (length (space_words r) > 10 \<longrightarrow>
      createCallSummary (Some r) = join_with '' '' (take 10 (space_words r)) @ ''...'')"
proof -
  have "length (space_words r) > 10 \<Longrightarrow> r \<noteq> []"
    by (auto simp: space_words_def)
  then show ?thesis
    by (auto simp: createCallSummary_def space_words_split Let_def)
qed

lemma collapse_from_plain: "plain_spaces (collapse_from b s)"
  by (induction s arbitrary: b) (auto simp: plain_spaces_def)

lemma lit_prefix_set: "lit_prefix l s = Some s' \<Longrightarrow> set s' \<subseteq> set s"
  by (induction l s rule: lit_prefix.induct) (auto split: if_splits)

lemma star_greedy_set:
  "star_greedy p s k = Some x \<Longrightarrow> \<exists>s'. set s' \<subseteq> set s \<and> k s' = Some x"
proof (induction s)
  case Nil
  then show ?case by auto
next
  case (Cons c cs)
  show ?case
  proof (cases "p c \<and> star_greedy p cs k = Some x")
    case True
    with Cons.IH obtain s' where "set s' \<subseteq> set cs" "k s' = Some x" by blast
    then show ?thesis by (intro exI[of _ s']) auto
  next
    case False
    with Cons.prems have "k (c # cs) = Some x"
      by (auto split: if_splits option.splits)
    then show ?thesis by blast
  qed
qed

lemma star_lazy_set:
  "star_lazy p s k = Some x \<Longrightarrow> \<exists>s'. set s' \<subseteq> set s \<and> k s' = Some x"
proof (induction s)
  case Nil
  then show ?case by auto
next
  case (Cons c cs)
  show ?case
  proof (cases "k (c # cs) = Some x")
    case True
    then show ?thesis by blast
  next
    case False
    with Cons.prems have "star_lazy p cs k = Some x"
      by (auto split: if_splits option.splits)
    with Cons.IH obtain s' where "set s' \<subseteq> set cs" "k s' = Some x" by blast
    then show ?thesis by (intro exI[of _ s']) auto
  qed
qed

lemma rx_run_set:
  "rx_run r s cap k = Some x \<Longrightarrow>
   \<exists>s' cap'. set s' \<subseteq> set s \<and> (cap' = cap \<or> (\<exists>g. cap' = Some g \<and> set g \<subseteq> set s)) \<and>
     k s' cap' = Some x"
proof (induction r arbitrary: s cap k x)
  case (Lit l)
  then obtain s' where "lit_prefix l s = Some s'" "k s' cap = Some x"
    by (auto split: option.splits)
  with lit_prefix_set[of l s s'] show ?case by blast
next
  case (One p)
  then obtain c cs where "s = c # cs" "k cs cap = Some x"
    by (auto split: list.splits if_splits)
  then show ?case by (intro exI[of _ cs] exI[of _ cap]) auto
next
  case (Star p)
  then have "star_greedy p s (\<lambda>s'. k s' cap) = Some x" by simp
  from star_greedy_set[OF this] show ?case by blast
next
  case (LazyStar p)
  then have "star_lazy p s (\<lambda>s'. k s' cap) = Some x" by simp
  from star_lazy_set[OF this] show ?case by blast
next
  case Eos
  then show ?case by (auto split: if_splits)
next
  case (Seq a b)
  from Seq.prems have "rx_run a s cap (\<lambda>s' cap'. rx_run b s' cap' k) = Some x" by simp
  from Seq.IH(1)[OF this] obtain s1 cap1 where
    1: "set s1 \<subseteq> set s" "cap1 = cap \<or> (\<exists>g. cap1 = Some g \<and> set g \<subseteq> set s)"
    "rx_run b s1 cap1 k = Some x" by blast
  from Seq.IH(2)[OF 1(3)] obtain s2 cap2 where
    2: "set s2 \<subseteq> set s1" "cap2 = cap1 \<or> (\<exists>g. cap2 = Some g \<and> set g \<subseteq> set s1)"
    "k s2 cap2 = Some x" by blast
  from 1 2 show ?case by (intro exI[of _ s2] exI[of _ cap2]) auto
next
  case (Alt a b)
  show ?case
  proof (cases "rx_run a s cap k = Some x")
    case True
    from Alt.IH(1)[OF this] show ?thesis .
  next
    case False
    with Alt.prems have "rx_run b s cap k = Some x" by (auto split: option.splits)
    from Alt.IH(2)[OF this] show ?thesis .
  qed
next
  case (Cap a)
  from Cap.prems have
    "rx_run a s cap (\<lambda>s' cap'. k s' (Some (take (length s - length s') s))) = Some x" by simp
  from Cap.IH[OF this] obtain s1 where
    1: "set s1 \<subseteq> set s" "k s1 (Some (take (length s - length s1) s)) = Some x" by blast
  have "set (take (length s - length s1) s) \<subseteq> set s" by (rule set_take_subset)
  with 1 show ?case by blast
qed

lemma js_match_set: "js_match t r = Some (Some g) \<Longrightarrow> set g \<subseteq> set t"
proof (induction t)
  case Nil
  then have "rx_run r [] None (\<lambda>s' cap. Some cap) = Some (Some g)" by simp
  from rx_run_set[OF this] show ?case by auto
next
  case (Cons c cs)
  show ?case
  proof (cases "rx_run r (c # cs) None (\<lambda>s' cap. Some cap) = Some (Some g)")
    case True
    from rx_run_set[OF this] show ?thesis by auto
  next
    case False
    with Cons.prems have "js_match cs r = Some (Some g)" by (auto split: option.splits)
    from Cons.IH[OF this] show ?thesis by auto
  qed
qed

lemma trim_set: "set (trim s) \<subseteq> set s"
proof -
  have "set (trim s) \<subseteq> set (rev (dropWhile is_space s))"
    unfolding trim_def set_rev by (auto dest: set_dropWhileD)
  also have "\<dots> \<subseteq> set s" by (auto dest: set_dropWhileD)
  finally show ?thesis .
qed

lemma upper_letters_no_space: "u \<in> set upper_letters \<Longrightarrow> \<not> is_space u"
  by (auto simp: upper_letters_def is_space_def)

lemma upper_char_space: "c' \<in> set (upper_char c) \<Longrightarrow> is_space c' \<Longrightarrow> c' = c"
proof -
  assume a: "c' \<in> set (upper_char c)" and s: "is_space c'"
  show ?thesis
  proof (cases "c = CHR 0xDF")
    case True
    with a s show ?thesis by (auto simp: upper_char_def is_space_def)
  next
    case False
    show ?thesis
    proof (cases "map_of (zip lower_letters upper_letters) c")
      case None
      with a False show ?thesis by (simp add: upper_char_def)
    next
      case (Some u)
      then have "u \<in> set upper_letters"
        by (auto dest!: map_of_SomeD set_zip_rightD)
      with a False Some s upper_letters_no_space[of u] show ?thesis
        by (simp add: upper_char_def)
    qed
  qed
qed

lemma capitalize_plain: "plain_spaces s \<Longrightarrow> plain_spaces (capitalize s)"
  unfolding plain_spaces_iff capitalize_def toUpperCase_def
  by (auto dest: upper_char_space in_set_takeD in_set_dropD)

lemma capitalize_nonempty: "length s > 1 \<Longrightarrow> capitalize s \<noteq> []"
  by (simp add: capitalize_def)

lemma plain_spaces_subset: "plain_spaces t \<Longrightarrow> set s \<subseteq> set t \<Longrightarrow> plain_spaces s"
  by (auto simp: plain_spaces_iff)

lemma capture_reason_domain:
  assumes "plain_spaces t" "js_match t p = Some (Some g)" "length (trim g) > 3"
  shows "capitalize (trim g) \<noteq> [] \<and> plain_spaces (capitalize (trim g))"
proof -
  from js_match_set[OF assms(2)] trim_set[of g] have "set (trim g) \<subseteq> set t" by blast
  from plain_spaces_subset[OF assms(1) this] assms(3) show ?thesis
    by (simp add: capitalize_plain capitalize_nonempty)
qed

lemma reason_loop_domain:
  "plain_spaces t \<Longrightarrow> reason_loop ps t = Some r \<Longrightarrow> r \<noteq> [] \<and> plain_spaces r"
proof (induction ps)
  case Nil
  then show ?case by simp
next
  case (Cons p ps)
  show ?case
  proof (cases "\<exists>g. js_match t p = Some (Some g) \<and> g \<noteq> [] \<and> length (trim g) > 3")
    case True
    then obtain g where g: "js_match t p = Some (Some g)" "g \<noteq> []" "length (trim g) > 3"
      by blast
    with Cons.prems have "r = capitalize (trim g)" by (simp add: Let_def)
    with capture_reason_domain[OF Cons.prems(1) g(1) g(3)] show ?thesis by simp
  next
    case False
    with Cons.prems have "reason_loop ps t = Some r"
      by (auto simp: Let_def split: option.splits if_splits)
    from Cons.IH[OF Cons.prems(1) this] show ?thesis .
  qed
qed

lemma service_loop_domain:
  "service_loop ss t = Some r \<Longrightarrow> \<forall>s \<in> set ss. plain_spaces s \<Longrightarrow> r \<noteq> [] \<and> plain_spaces r"
proof (induction ss)
  case Nil
  then show ?case by simp
next
  case (Cons s ss)
  show ?case
  proof (cases "str_includes t s")
    case True
    from Cons.prems(2) have "plain_spaces (capitalize s)" by (simp add: capitalize_plain)
    have suf: "plain_spaces '' maintenance''" "plain_spaces '' repair''"
      "plain_spaces '' installation''" "plain_spaces '' service''"
      by (simp_all add: plain_spaces_def is_space_def)
    have app: "plain_spaces (a @ b)" if "plain_spaces a" "plain_spaces b" for a b
      using that by (simp add: plain_spaces_def)
    from True Cons.prems(1) consider "r = capitalize s @ '' maintenance''"
      | "r = capitalize s @ '' repair''" | "r = capitalize s @ '' installation''"
      | "r = capitalize s @ '' service''"
      by (auto split: if_splits)
    then show ?thesis
      using app[OF \<open>plain_spaces (capitalize s)\<close>] suf by cases simp_all
  next
    case False
    with Cons show ?thesis by simp
  qed
qed

lemma reason_fallback_domain:
  "plain_spaces t \<Longrightarrow> reason_fallback t = Some r \<Longrightarrow> r \<noteq> [] \<and> plain_spaces r"
  using capture_reason_domain[of t reasonConfirmationPattern]
  by (auto simp: reason_fallback_def split: option.splits if_splits)

lemma extractReason_domain:
  assumes "plain_spaces t" "extractReason t = Some r"
  shows "r \<noteq> [] \<and> plain_spaces r"
proof (cases "str_includes t ''emergency'' \<or> str_includes t ''urgent'' \<or> str_includes t ''storm''")
  case True
  with assms(2) consider "r = ''Emergency plumbing service''" | "r = ''Emergency tree removal''"
    | "r = ''Emergency electrical service''" | "r = ''Emergency service request''"
    by (auto simp: extractReason_def split: if_splits)
  then show ?thesis
    by cases (simp_all add: plain_spaces_def is_space_def)
next
  case False
  with assms(2) have l: "later_reason t = Some r" by (simp add: extractReason_def)
  have bs: "\<forall>s \<in> set businessServices. plain_spaces s"
    by (simp add: businessServices_def plain_spaces_def is_space_def)
  from l show ?thesis
    using reason_loop_domain[OF assms(1), of servicePatterns r]
      service_loop_domain[OF _ bs, of t r] reason_fallback_domain[OF assms(1), of r]
    by (auto simp: later_reason_def split: option.splits)
qed

text \<open>
  Claim C8: \<open>createCallSummary\<close> maps \<open>null\<close> to \<open>Customer inquiry\<close>; a reason
  whose list of white-space separated words has at most 10 words is returned unchanged,
  and a longer one yields its first 10 words joined by single spaces, followed by
  \<open>...\<close>. The reasons are those the function receives: non-empty, with no white space
  but U+0020. The last part states it at the call site, for the reason of every
  transcript, which is such a text.
\<close>

theorem createCallSummary_words:
  "createCallSummary None = ''Customer inquiry'' \<and>
   (r \<noteq> [] \<and> plain_spaces r \<and> length (whitespace_words r) \<le> 10 \<longrightarrow>
      createCallSummary (Some r) = r) \<and>
   (r \<noteq> [] \<and> plain_spaces r \<and> length (whitespace_words r) > 10 \<longrightarrow>
      createCallSummary (Some r) = join_with '' '' (take 10 (whitespace_words r)) @ ''...'') \<and>
   (extractReason (collapse_spaces (toLowerCase t)) = Some rsn \<longrightarrow>
      rsn \<noteq> [] \<and> plain_spaces rsn \<and>
      createCallSummary (Some rsn) =
        (if length (whitespace_words rsn) \<le> 10 then rsn
         else join_with '' '' (take 10 (whitespace_words rsn)) @ ''...''))"
proof -
  have 1: "r \<noteq> [] \<and> plain_spaces r \<and> length (whitespace_words r) \<le> 10 \<longrightarrow>
      createCallSummary (Some r) = r" for r
    using createCallSummary_space_words[of r] by (auto simp: whitespace_words_plain)
  have 2: "r \<noteq> [] \<and> plain_spaces r \<and> length (whitespace_words r) > 10 \<longrightarrow>
      createCallSummary (Some r) = join_with '' '' (take 10 (whitespace_words r)) @ ''...''" for r
    using createCallSummary_space_words[of r] by (auto simp: whitespace_words_plain)
  have 3: "extractReason (collapse_spaces (toLowerCase t)) = Some rsn \<longrightarrow>
      rsn \<noteq> [] \<and> plain_spaces rsn"
    using extractReason_domain[of "collapse_spaces (toLowerCase t)" rsn]
    by (simp add: collapse_spaces_def collapse_from_plain)
  have 0: "createCallSummary None = ''Customer inquiry''"
    by (simp add: createCallSummary_def)
  have 4: "extractReason (collapse_spaces (toLowerCase t)) = Some rsn \<longrightarrow>
      rsn \<noteq> [] \<and> plain_spaces rsn \<and>
      createCallSummary (Some rsn) =
        (if length (whitespace_words rsn) \<le> 10 then rsn
         else join_with '' '' (take 10 (whitespace_words rsn)) @ ''...'')"
    using 1[of rsn] 2[of rsn] 3 by (cases "length (whitespace_words rsn) \<le> 10") simp_all
  from 0 1[of r] 2[of r] 4 show ?thesis by blast
qed

theorem createCallSummary_words_witness:
  "createCallSummary (Some ''a b c d e f g h i j k l m n o'') = ''a b c d e f g h i j...'' \<and>
   createCallSummary (Some ''clogged kitchen drain'') = ''clogged kitchen drain'' \<and>
   extractReason (collapse_spaces (toLowerCase ''I am calling about  flooding in the basement'')) =
     Some ''Flooding'' \<and>
   createCallSummary (Some ''Flooding'') = ''Flooding''"
proof -
  have a: "plain_spaces ''a b c d e f g h i j k l m n o''" "plain_spaces ''clogged kitchen drain''"
    by (simp_all add: plain_spaces_def is_space_def)
  have b: "length (whitespace_words ''a b c d e f g h i j k l m n o'') > 10"
    "length (whitespace_words ''clogged kitchen drain'') \<le> 10"
    "length (whitespace_words ''Flooding'') \<le> 10"
    by (simp_all add: whitespace_words_def is_space_def)
  have c: "join_with '' '' (take 10 (whitespace_words ''a b c d e f g h i j k l m n o'')) =
      ''a b c d e f g h i j''"
    by (simp add: whitespace_words_def is_space_def)
  have e: "extractReason (collapse_spaces (toLowerCase ''I am calling about  flooding in the basement'')) =
     Some ''Flooding''"
    by code_simp
  from createCallSummary_words[of "''a b c d e f g h i j k l m n o''"
      "''I am calling about  flooding in the basement''" "''Flooding''"]
    createCallSummary_words[of "''clogged kitchen drain''"] a b c e
  show ?thesis by simp
qed

subsection \<open>Phone extraction\<close>

lemma phone_loop_Some:
  "phone_loop ps t = Some r \<Longrightarrow>
   \<exists>p \<in> set ps. \<exists>run. js_match t p = Some (Some run) \<and>
      7 \<le> length (filter is_digit run) \<and> length (filter is_digit run) \<le> 15 \<and>
      r = canonical_phone_format run"
proof (induction ps)
  case Nil
  then show ?case by simp
next
  case (Cons p ps)
  show ?case
  proof (cases "\<exists>g. js_match t p = Some (Some g) \<and> g \<noteq> [] \<and>
      7 \<le> length (filter is_digit g) \<and> length (filter is_digit g) \<le> 15")
    case True
    then obtain g where g: "js_match t p = Some (Some g)" "g \<noteq> []"
      "7 \<le> length (filter is_digit g)" "length (filter is_digit g) \<le> 15" by blast
    with Cons.prems have "r = formatPhoneNumber (filter is_digit g)" by (simp add: Let_def)
    then have "r = canonical_phone_format g"
      by (simp add: formatPhoneNumber_def canonical_phone_format_def Let_def)
    with g show ?thesis by auto
  next
    case False
    with Cons.prems have "phone_loop ps t = Some r"
      by (auto simp: Let_def split: option.splits if_splits)
    from Cons.IH[OF this] show ?thesis by auto
  qed
qed

text \<open>
  Claim C9: \<open>extractPhoneNumber\<close> returns a value only when a pattern of the table
  captures a run with 7 to 15 digits, and the value is the canonical format of that run;
  the two transcripts of the specification yield \<open>+15551234567\<close>.
\<close>

theorem extractPhoneNumber_spec:
  "(extractPhoneNumber t = Some r \<longrightarrow>
     (\<exists>p \<in> set phonePatterns. \<exists>run. js_match t p = Some (Some run) \<and>
        7 \<le> length (filter is_digit run) \<and> length (filter is_digit run) \<le> 15 \<and>
        r = canonical_phone_format run)) \<and>
   extractPhoneNumber ''my number is 555-123-4567'' = Some ''+15551234567'' \<and>
   extractPhoneNumber ''call me at (555) 123-4567'' = Some ''+15551234567''"
proof -
  have 1: "extractPhoneNumber ''my number is 555-123-4567'' = Some ''+15551234567''"
    by code_simp
  have 2: "extractPhoneNumber ''call me at (555) 123-4567'' = Some ''+15551234567''"
    by code_simp
  show ?thesis using 1 2 phone_loop_Some[of phonePatterns t r]
    by (simp add: extractPhoneNumber_def)
qed

theorem extractPhoneNumber_spec_witness:
  "extractPhoneNumber ''reach me at 555 0199'' = Some ''+5550199'' \<and>
   (\<exists>p \<in> set phonePatterns. \<exists>run. js_match ''reach me at 555 0199'' p = Some (Some run) \<and>
        7 \<le> length (filter is_digit run) \<and> length (filter is_digit run) \<le> 15 \<and>
        ''+5550199'' = canonical_phone_format run)"
proof -
  have 1: "extractPhoneNumber ''reach me at 555 0199'' = Some ''+5550199''"
    by code_simp
  from extractPhoneNumber_spec[of "''reach me at 555 0199''" "''+5550199''"] 1
  show ?thesis by blast
qed

section \<open>Properties of the webhook controller\<close>

subsection \<open>The store requests of the controller\<close>

lemma createOrUpdateCall_cases:
  "(\<exists>err. createOrUpdateCall e w bid x st d = (Inl err, d)) \<or>
   (o_write_call e = Served \<and>
    (case calls d (call_id w) of
       Some old \<Rightarrow>
         o_select_call e = Served \<and>
         createOrUpdateCall e w bid x st d =
           (Inr (call_id w, write_call_data (make_call_data w bid x st) old),
            d\<lparr>calls := (calls d)(call_id w \<mapsto> write_call_data (make_call_data w bid x st) old)\<rparr>)
     | None \<Rightarrow>
         (\<forall>m. o_select_call e \<noteq> Thrown m) \<and>
         createOrUpdateCall e w bid x st d =
           (Inr (call_id w, write_call_data (make_call_data w bid x st) (default_call (now e))),
            d\<lparr>calls := (calls d)(call_id w \<mapsto>
                 write_call_data (make_call_data w bid x st) (default_call (now e)))\<rparr>)))"
  by (auto simp: createOrUpdateCall_def select_single_def update_returning_def insert_row_def
      Let_def split: outcome.splits option.splits)

lemma createOrUpdateCall_Inl:
  "createOrUpdateCall e w bid x st d = (Inl err, d') \<Longrightarrow> d' = d"
  using createOrUpdateCall_cases[of e w bid x st d]
  by (auto split: option.splits)

lemma createOrUpdateCall_Inr:
  "createOrUpdateCall e w bid x st d = (Inr callRecord, d') \<Longrightarrow>
   fst callRecord = call_id w \<and>
   d' = d\<lparr>calls := (calls d)(call_id w \<mapsto> snd callRecord)\<rparr> \<and>
   snd callRecord = write_call_data (make_call_data w bid x st)
      (case calls d (call_id w) of Some old \<Rightarrow> old | None \<Rightarrow> default_call (now e))"
  using createOrUpdateCall_cases[of e w bid x st d]
  by (auto split: option.splits)

lemma updateCallStatus_Inl:
  "updateCallStatus e cid s d = (Inl err, d') \<Longrightarrow> d' = d"
  by (auto simp: updateCallStatus_def update_returning_def split: outcome.splits option.splits)

lemma updateCallStatus_Inr:
  "updateCallStatus e cid s d = (Inr callRecord, d') \<Longrightarrow>
   \<exists>old. calls d cid = Some old \<and> callRecord = (cid, old\<lparr>call_status := Some s\<rparr>) \<and>
     d' = d\<lparr>calls := (calls d)(cid \<mapsto> old\<lparr>call_status := Some s\<rparr>)\<rparr>"
  by (auto simp: updateCallStatus_def update_returning_def split: outcome.splits option.splits)

lemma updateCallNotificationStatus_returns:
  "fst (updateCallNotificationStatus e cid n d) = Inr ()"
  by (auto simp: updateCallNotificationStatus_def update_rows_def catch_and_log_def
      split: outcome.splits option.splits)

lemma updateCallNotificationStatus_state:
  "snd (updateCallNotificationStatus e cid n d) =
     (if o_update_notification e = Served then
        (case calls d cid of
           None \<Rightarrow> d
         | Some row \<Rightarrow> d\<lparr>calls := (calls d)(cid \<mapsto> row\<lparr>notification_sent := Some n\<rparr>)\<rparr>)
      else d)"
  by (auto simp: updateCallNotificationStatus_def update_rows_def catch_and_log_def
      split: outcome.splits option.splits)

lemma updateCallAnalytics_returns:
  "fst (updateCallAnalytics e bid cc et d) = Inr ()"
  by (auto simp: updateCallAnalytics_def update_rows_def insert_row_def select_single_def
      catch_and_log_def Let_def split: outcome.splits option.splits)

lemma updateCallAnalytics_frame:
  "calls (snd (updateCallAnalytics e bid cc et d)) = calls d \<and>
   businesses (snd (updateCallAnalytics e bid cc et d)) = businesses d"
  by (auto simp: updateCallAnalytics_def update_rows_def insert_row_def select_single_def
      catch_and_log_def Let_def split: outcome.splits option.splits)

lemma updateCallAnalytics_served:
  "o_select_analytics e = Served \<Longrightarrow> o_write_analytics e = Served \<Longrightarrow>
   call_analytics (snd (updateCallAnalytics e bid cc et d)) =
     (call_analytics d)((bid, today e) \<mapsto>
        (case call_analytics d (bid, today e) of
           None \<Rightarrow> \<lparr>total_calls = 1,
                     successful_notifications = (if et = Some ''completed'' then 1 else 0),
                     failed_notifications = (if et = Some ''completed'' then 0 else 1)\<rparr>
         | Some old \<Rightarrow> old\<lparr>total_calls := total_calls old + 1,
                           successful_notifications :=
                             (if et = Some ''completed'' then successful_notifications old + 1
                              else successful_notifications old)\<rparr>))"
  by (auto simp: updateCallAnalytics_def update_rows_def insert_row_def select_single_def
      catch_and_log_def write_analytics_def Let_def split: outcome.splits option.splits)

lemma notify_and_record_returns:
  "fst (notify_and_record e callRecord b d) = Inr (sendAllNotifications e callRecord b)"
  using updateCallNotificationStatus_returns[of e "fst callRecord" "sendAllNotifications e callRecord b" d]
  by (auto simp: notify_and_record_def Let_def split: prod.splits sum.splits)

lemma notify_and_record_state:
  "snd (notify_and_record e callRecord b d) =
     snd (updateCallNotificationStatus e (fst callRecord) (sendAllNotifications e callRecord b) d)"
  by (auto simp: notify_and_record_def Let_def split: prod.splits sum.splits)

lemma handleCallStarted_eq:
  "handleCallStarted e w b d =
     (case createOrUpdateCall e w (b_id b) empty_info (Val ''in-progress'') d of
        (Inl err, d1) \<Rightarrow> (Inl err, d1)
      | (Inr callRecord, d1) \<Rightarrow>
          (Inr \<lparr>success = True, r_call_id = fst callRecord, r_business_id = b_id b,
                r_event_type = Some ''call_started'', notifications_sent = None,
                extracted_info = None, message = Some ''Call started successfully''\<rparr>,
           snd (updateCallAnalytics e (b_id b) False (Some ''started'') d1)))"
  by (simp add: handleCallStarted_def split_def updateCallAnalytics_returns split: sum.splits)

lemma handleCallEnded_eq:
  "handleCallEnded e w b d =
     (case updateCallStatus e (call_id w) ''completed'' d of
        (Inl err, d1) \<Rightarrow> (Inl err, d1)
      | (Inr callRecord, d1) \<Rightarrow>
          (Inr \<lparr>success = True, r_call_id = fst callRecord, r_business_id = b_id b,
                r_event_type = Some ''call_ended'', notifications_sent = None,
                extracted_info = None, message = Some ''Call ended successfully''\<rparr>,
           snd (updateCallAnalytics e (b_id b) True (Some ''completed'') d1)))"
  by (simp add: handleCallEnded_def split_def updateCallAnalytics_returns split: sum.splits)

lemma notify_and_record_eq:
  "notify_and_record e callRecord b d =
     (Inr (sendAllNotifications e callRecord b),
      snd (updateCallNotificationStatus e (fst callRecord) (sendAllNotifications e callRecord b) d))"
  using notify_and_record_returns[of e callRecord b d] notify_and_record_state[of e callRecord b d]
  by (metis prod.collapse)

lemma handleCallAnalyzed_eq:
  "handleCallAnalyzed e w b d =
     (case createOrUpdateCall e w (b_id b) (extract_from (transcript_of w)) (Val ''completed'') d of
        (Inl err, d1) \<Rightarrow> (Inl err, d1)
      | (Inr callRecord, d1) \<Rightarrow>
          (Inr \<lparr>success = True, r_call_id = fst callRecord, r_business_id = b_id b,
                r_event_type = Some ''call_analyzed'',
                notifications_sent =
                  Some (if truthy (e_call_summary (extract_from (transcript_of w)))
                        then sendAllNotifications e callRecord b else False),
                extracted_info = Some (extract_from (transcript_of w)),
                message = Some ''Call analyzed and notifications sent''\<rparr>,
           if truthy (e_call_summary (extract_from (transcript_of w)))
           then snd (updateCallNotificationStatus e (fst callRecord)
                       (sendAllNotifications e callRecord b) d1)
           else d1))"
  by (simp add: handleCallAnalyzed_def notify_and_record_eq Let_def split_def split: sum.splits)

lemma handleLegacyWebhook_eq:
  "handleLegacyWebhook e w b d =
     (case createOrUpdateCall e w (b_id b)
             (if w_call_status w = Val ''completed'' then extract_from (transcript_of w)
              else empty_info) (w_call_status w) d of
        (Inl err, d1) \<Rightarrow> (Inl err, d1)
      | (Inr callRecord, d1) \<Rightarrow>
          (Inr \<lparr>success = True, r_call_id = fst callRecord, r_business_id = b_id b,
                r_event_type = None,
                notifications_sent =
                  Some (if w_call_status w = Val ''completed''
                        then sendAllNotifications e callRecord b else False),
                extracted_info =
                  Some (if w_call_status w = Val ''completed''
                        then extract_from (transcript_of w) else empty_info),
                message = None\<rparr>,
           snd (updateCallAnalytics e (b_id b) (w_call_status w = Val ''completed'') None
             (if w_call_status w = Val ''completed''
              then snd (updateCallNotificationStatus e (fst callRecord)
                          (sendAllNotifications e callRecord b) d1)
              else d1))))"
  by (simp add: handleLegacyWebhook_def notify_and_record_eq Let_def split_def
      updateCallAnalytics_returns split: sum.splits)

lemma handleRetellWebhook_Inl:
  "handleRetellWebhook e w d = (Inl err, d') \<Longrightarrow> d' = d"
  by (auto simp: handleRetellWebhook_def handleCallStarted_eq handleCallEnded_eq
      handleCallAnalyzed_eq handleLegacyWebhook_eq
      dest: createOrUpdateCall_Inl updateCallStatus_Inl
      split: option.splits if_splits prod.splits sum.splits)

subsection \<open>Redelivery of an Analyzed event\<close>


















subsection \<open>A Started event after the end of the call\<close>

lemma find_plumber:
  "findBusinessByPhoneNumber all_served (store_with s) (Val ''(555) 987-6543'') = Some plumber"
  by (simp add: findBusinessByPhoneNumber_def select_business_def all_served_def store_with_def
      normalizePhoneNumber_def truthy_def is_digit_def filter_text_def plumber_def)

text \<open>
  Claim C1, as stated: a Started event that arrives for a call whose status is terminal
  never sets the status back to \<open>in-progress\<close>. The handler passes \<open>in-progress\<close> to
  \<open>createOrUpdateCall\<close>, which writes it over the status of the row it finds: here the
  call is \<open>completed\<close>, the event succeeds, and the status is \<open>in-progress\<close> after it.
\<close>

theorem started_after_completed:
  "map_option call_status (calls (store_with ''completed'') ''call-1'') = Some (Some ''completed'') \<and>
   map_sum id success
     (fst (handleRetellWebhook all_served (bare_event (Val ''call_started'')) (store_with ''completed'')))
     = Inr True \<and>
   map_option call_status
     (calls (snd (handleRetellWebhook all_served (bare_event (Val ''call_started''))
        (store_with ''completed''))) ''call-1'') = Some (Some ''in-progress'')"
  using find_plumber[of "''completed''"]
  by (simp add: handleRetellWebhook_def handleCallStarted_eq bare_event_def
        createOrUpdateCall_def select_single_def update_returning_def all_served_def
        store_with_def call_with_status_def write_call_data_def make_call_data_def
        set_column_def updateCallAnalytics_frame Let_def)

text \<open>
  Claim C1, amended: a Started event that is processed successfully leaves the row of its
  call id with the status \<open>in-progress\<close>, whatever the status was before; the status is
  kept only when the event fails, and then the whole store is as it was.
\<close>

theorem started_event_overwrites_status:
  "event_type w = Val ''call_started'' \<Longrightarrow>
   (case fst (handleRetellWebhook e w d) of
      Inr ok \<Rightarrow>
        (\<exists>row. calls (snd (handleRetellWebhook e w d)) (call_id w) = Some row \<and>
               call_status row = Some ''in-progress'')
    | Inl err \<Rightarrow> snd (handleRetellWebhook e w d) = d)"
proof (cases "findBusinessByPhoneNumber e d (w_to_number w)")
  case None
  then show ?thesis by (simp add: handleRetellWebhook_def)
next
  case (Some b)
  assume a: "event_type w = Val ''call_started''"
  have 1: "handleRetellWebhook e w d = handleCallStarted e w b d"
    using Some a by (simp add: handleRetellWebhook_def)
  show ?thesis
    unfolding 1
    using createOrUpdateCall_cases[of e w "b_id b" empty_info "Val ''in-progress''" d]
    by (auto simp: handleCallStarted_eq updateCallAnalytics_frame write_call_data_def
        make_call_data_def set_column_def split: option.splits)
qed

theorem started_event_overwrites_status_witness:
  "map_option call_status (calls (store_with ''failed'') ''call-1'') = Some (Some ''failed'') \<and>
   (\<exists>row. calls (snd (handleRetellWebhook all_served (bare_event (Val ''call_started''))
             (store_with ''failed''))) ''call-1'' = Some row \<and>
          call_status row = Some ''in-progress'') \<and>
   snd (handleRetellWebhook all_served (bare_event (Val ''call_started'')) closed_store) =
     closed_store"
proof -
  let ?w = "bare_event (Val ''call_started'')"
  have ok: "map_sum id success
     (fst (handleRetellWebhook all_served ?w (store_with ''failed''))) = Inr True"
    using find_plumber[of "''failed''"]
    by (simp add: handleRetellWebhook_def handleCallStarted_eq bare_event_def
        createOrUpdateCall_def select_single_def update_returning_def all_served_def
        store_with_def call_with_status_def Let_def)
  have ev: "event_type ?w = Val ''call_started''"
    by (simp add: bare_event_def)
  have cid: "call_id ?w = ''call-1''"
    by (simp add: bare_event_def)
  from started_event_overwrites_status[OF ev, of all_served "store_with ''failed''"] ok
  have 1: "\<exists>row. calls (snd (handleRetellWebhook all_served ?w (store_with ''failed''))) ''call-1'' =
      Some row \<and> call_status row = Some ''in-progress''"
    by (auto simp: cid split: sum.splits)
  have "findBusinessByPhoneNumber all_served closed_store (w_to_number ?w) = None"
    by (simp add: findBusinessByPhoneNumber_def select_business_def all_served_def
        closed_store_def)
  then have "fst (handleRetellWebhook all_served ?w closed_store) =
      Inl (BusinessNotFound (w_to_number ?w))"
    by (simp add: handleRetellWebhook_def)
  with started_event_overwrites_status[OF ev, of all_served closed_store]
  have 2: "snd (handleRetellWebhook all_served ?w closed_store) = closed_store"
    by simp
  from 1 2 show ?thesis
    by (simp add: store_with_def call_with_status_def default_call_def)
qed

subsection \<open>Analytics, business resolution and store errors\<close>

lemma createOrUpdateCall_served:
  "o_select_call e = Served \<Longrightarrow> o_write_call e = Served \<Longrightarrow>
   \<exists>row. createOrUpdateCall e w bid x st d =
     (Inr (call_id w, row), d\<lparr>calls := (calls d)(call_id w \<mapsto> row)\<rparr>)"
  by (auto simp: createOrUpdateCall_def select_single_def update_returning_def insert_row_def
      Let_def split: option.splits)

lemma updateCallNotificationStatus_analytics:
  "call_analytics (snd (updateCallNotificationStatus e cid n d)) = call_analytics d"
  by (simp add: updateCallNotificationStatus_state split: option.splits)

lemma handleCallAnalyzed_analytics:
  "call_analytics (snd (handleCallAnalyzed e w b d)) = call_analytics d"
  using createOrUpdateCall_cases[of e w "b_id b" "extract_from (transcript_of w)" "Val ''completed''" d]
  by (auto simp: handleCallAnalyzed_eq updateCallNotificationStatus_analytics
      split: option.splits)

text \<open>
  Claim C3, as stated: every successfully processed event, Analyzed included, adds 1 to
  \<open>total_calls\<close> of the row of the business and the day. \<open>handleCallAnalyzed\<close> has no
  call of \<open>updateCallAnalytics\<close>, and \<open>updateCallAnalytics\<close> only logs the error of a
  store request: the Analyzed event below succeeds and the counter stays at 5, and so does
  the Started event whose analytics request throws.
\<close>

theorem events_not_counted:
  "map_option total_calls
     (call_analytics (store_with ''in-progress'') (''business-123'', ''2025-03-01'')) = Some 5 \<and>
   map_sum id success
     (fst (handleRetellWebhook all_served analyzed_event (store_with ''in-progress''))) = Inr True \<and>
   map_option total_calls
     (call_analytics (snd (handleRetellWebhook all_served analyzed_event (store_with ''in-progress'')))
        (''business-123'', ''2025-03-01'')) = Some 5 \<and>
   map_sum id success
     (fst (handleRetellWebhook failing_writes (bare_event (Val ''call_started''))
        (store_with ''in-progress''))) = Inr True \<and>
   map_option total_calls
     (call_analytics (snd (handleRetellWebhook failing_writes (bare_event (Val ''call_started''))
        (store_with ''in-progress''))) (''business-123'', ''2025-03-01'')) = Some 5"
proof -
  let ?d = "store_with ''in-progress''"
  let ?s = "bare_event (Val ''call_started'')"
  have f: "findBusinessByPhoneNumber all_served ?d (w_to_number analyzed_event) = Some plumber"
    using find_plumber[of "''in-progress''"] by (simp add: analyzed_event_def bare_event_def)
  have h: "handleRetellWebhook all_served analyzed_event ?d =
      handleCallAnalyzed all_served analyzed_event plumber ?d"
    using f by (simp add: handleRetellWebhook_def analyzed_event_def bare_event_def)
  have s1: "o_select_call all_served = Served" and s2: "o_write_call all_served = Served"
    by (simp_all add: all_served_def)
  from createOrUpdateCall_served[OF s1 s2, of analyzed_event "b_id plumber"
      "extract_from (transcript_of analyzed_event)" "Val ''completed''" ?d]
  obtain row where "createOrUpdateCall all_served analyzed_event (b_id plumber)
      (extract_from (transcript_of analyzed_event)) (Val ''completed'') ?d =
     (Inr (call_id analyzed_event, row),
      ?d\<lparr>calls := (calls ?d)(call_id analyzed_event \<mapsto> row)\<rparr>)"
    by blast
  then have 1: "map_sum id success
     (fst (handleCallAnalyzed all_served analyzed_event plumber ?d)) = Inr True"
    by (simp add: handleCallAnalyzed_eq)
  have f': "findBusinessByPhoneNumber failing_writes ?d (w_to_number ?s) = Some plumber"
    using find_plumber[of "''in-progress''"]
    by (simp add: bare_event_def findBusinessByPhoneNumber_def failing_writes_def all_served_def)
  have h': "handleRetellWebhook failing_writes ?s ?d = handleCallStarted failing_writes ?s plumber ?d"
    using f' by (simp add: handleRetellWebhook_def bare_event_def)
  have t1: "o_select_call failing_writes = Served" and t2: "o_write_call failing_writes = Served"
    by (simp_all add: failing_writes_def all_served_def)
  from createOrUpdateCall_served[OF t1 t2, of ?s "b_id plumber" empty_info "Val ''in-progress''" ?d]
  obtain row' where c': "createOrUpdateCall failing_writes ?s (b_id plumber) empty_info
      (Val ''in-progress'') ?d =
     (Inr (call_id ?s, row'), ?d\<lparr>calls := (calls ?d)(call_id ?s \<mapsto> row')\<rparr>)"
    by blast
  have an: "\<And>d1. call_analytics (snd (updateCallAnalytics failing_writes (b_id plumber) False
      (Some ''started'') d1)) = call_analytics d1"
    by (simp add: updateCallAnalytics_def select_single_def failing_writes_def all_served_def
        catch_and_log_def)
  have 2: "map_sum id success (fst (handleCallStarted failing_writes ?s plumber ?d)) = Inr True"
    using c' by (simp add: handleCallStarted_eq)
  have 3: "call_analytics (snd (handleCallStarted failing_writes ?s plumber ?d)) = call_analytics ?d"
    using c' by (simp add: handleCallStarted_eq an)
  have 0: "map_option total_calls (call_analytics ?d (''business-123'', ''2025-03-01'')) = Some 5"
    by (simp add: store_with_def)
  show ?thesis
    unfolding h h' using 0 1 2 by (simp add: handleCallAnalyzed_analytics 3)
qed

lemma createOrUpdateCall_analytics:
  "createOrUpdateCall e w bid x st d = (r, d') \<Longrightarrow> call_analytics d' = call_analytics d"
  using createOrUpdateCall_cases[of e w bid x st d]
  by (auto split: option.splits)

lemma updateCallStatus_analytics:
  "updateCallStatus e cid s d = (r, d') \<Longrightarrow> call_analytics d' = call_analytics d"
  by (auto simp: updateCallStatus_def update_returning_def split: outcome.splits option.splits)

lemma analytics_step:
  assumes "call_analytics d1 = call_analytics d"
  shows "o_select_analytics e = Served \<and> o_write_analytics e = Served \<longrightarrow>
         (\<forall>key. key \<noteq> (bid, today e) \<longrightarrow>
            call_analytics (snd (updateCallAnalytics e bid cc et d1)) key = call_analytics d key) \<and>
         (case call_analytics d (bid, today e) of
            None \<Rightarrow>
              (\<exists>row. call_analytics (snd (updateCallAnalytics e bid cc et d1)) (bid, today e) = Some row \<and>
                     total_calls row = 1)
          | Some old \<Rightarrow>
              (\<exists>row. call_analytics (snd (updateCallAnalytics e bid cc et d1)) (bid, today e) = Some row \<and>
                     total_calls row = total_calls old + 1 \<and>
                     failed_notifications row = failed_notifications old \<and>
                     successful_notifications row =
                       successful_notifications old + (if et = Some ''completed'' then 1 else 0)))"
  using assms by (auto simp: updateCallAnalytics_served split: option.splits)

text \<open>
  Claim C3, amended: a successfully processed Analyzed event leaves every analytics row as
  it was. A successfully processed Started, Ended or Legacy event whose two analytics
  requests are served touches the row of the business and the day only; a row that exists
  gets \<open>total_calls\<close> increased by 1, \<open>failed_notifications\<close> unchanged and
  \<open>successful_notifications\<close> increased by 1 for an Ended event and unchanged otherwise;
  a row that does not exist is created with \<open>total_calls\<close> 1.
\<close>

theorem analytics_counters:
  assumes "handleRetellWebhook e w d = (Inr res, d')"
  shows "(event_type w = Val ''call_analyzed'' \<longrightarrow> call_analytics d' = call_analytics d) \<and>
         (event_type w \<noteq> Val ''call_analyzed'' \<and> o_select_analytics e = Served \<and>
          o_write_analytics e = Served \<longrightarrow>
            (\<forall>key. key \<noteq> (r_business_id res, today e) \<longrightarrow>
               call_analytics d' key = call_analytics d key) \<and>
            (case call_analytics d (r_business_id res, today e) of
               None \<Rightarrow>
                 (\<exists>row. call_analytics d' (r_business_id res, today e) = Some row \<and>
                        total_calls row = 1)
             | Some old \<Rightarrow>
                 (\<exists>row. call_analytics d' (r_business_id res, today e) = Some row \<and>
                        total_calls row = total_calls old + 1 \<and>
                        failed_notifications row = failed_notifications old \<and>
                        successful_notifications row =
                          successful_notifications old +
                          (if event_type w = Val ''call_ended'' then 1 else 0))))"
proof (cases "findBusinessByPhoneNumber e d (w_to_number w)")
  case None
  with assms show ?thesis by (simp add: handleRetellWebhook_def)
next
  case (Some b)
  consider (started) "event_type w = Val ''call_started''"
    | (ended) "event_type w = Val ''call_ended''"
    | (analyzed) "event_type w = Val ''call_analyzed''"
    | (legacy) "event_type w \<noteq> Val ''call_started''" "event_type w \<noteq> Val ''call_ended''"
        "event_type w \<noteq> Val ''call_analyzed''"
    by blast
  then show ?thesis
  proof cases
    case started
    with assms Some have h: "handleCallStarted e w b d = (Inr res, d')"
      by (simp add: handleRetellWebhook_def)
    then obtain callRecord d1 where
      c: "createOrUpdateCall e w (b_id b) empty_info (Val ''in-progress'') d = (Inr callRecord, d1)"
      and r: "r_business_id res = b_id b"
      and d': "d' = snd (updateCallAnalytics e (b_id b) False (Some ''started'') d1)"
      by (auto simp: handleCallStarted_eq split: prod.splits sum.splits)
    from analytics_step[OF createOrUpdateCall_analytics[OF c], of e "b_id b" False "Some ''started''"]
    show ?thesis using started by (auto simp: r d' split: option.splits)
  next
    case ended
    with assms Some have h: "handleCallEnded e w b d = (Inr res, d')"
      by (simp add: handleRetellWebhook_def)
    then obtain callRecord d1 where
      c: "updateCallStatus e (call_id w) ''completed'' d = (Inr callRecord, d1)"
      and r: "r_business_id res = b_id b"
      and d': "d' = snd (updateCallAnalytics e (b_id b) True (Some ''completed'') d1)"
      by (auto simp: handleCallEnded_eq split: prod.splits sum.splits)
    from analytics_step[OF updateCallStatus_analytics[OF c], of e "b_id b" True "Some ''completed''"]
    show ?thesis using ended by (auto simp: r d' split: option.splits)
  next
    case analyzed
    with assms Some have h: "handleCallAnalyzed e w b d = (Inr res, d')"
      by (simp add: handleRetellWebhook_def)
    then have "d' = snd (handleCallAnalyzed e w b d)" by simp
    then show ?thesis using analyzed by (simp add: handleCallAnalyzed_analytics)
  next
    case legacy
    with assms Some have h: "handleLegacyWebhook e w b d = (Inr res, d')"
      by (simp add: handleRetellWebhook_def)
    then obtain callRecord d1 where
      c: "createOrUpdateCall e w (b_id b)
             (if w_call_status w = Val ''completed'' then extract_from (transcript_of w)
              else empty_info) (w_call_status w) d = (Inr callRecord, d1)"
      and r: "r_business_id res = b_id b"
      and d': "d' = snd (updateCallAnalytics e (b_id b) (w_call_status w = Val ''completed'') None
             (if w_call_status w = Val ''completed''
              then snd (updateCallNotificationStatus e (fst callRecord)
                          (sendAllNotifications e callRecord b) d1)
              else d1))"
      by (auto simp: handleLegacyWebhook_eq split: prod.splits sum.splits)
    have "call_analytics (if w_call_status w = Val ''completed''
              then snd (updateCallNotificationStatus e (fst callRecord)
                          (sendAllNotifications e callRecord b) d1)
              else d1) = call_analytics d"
      using createOrUpdateCall_analytics[OF c]
      by (simp add: updateCallNotificationStatus_analytics)
    from analytics_step[OF this, of e "b_id b" "w_call_status w = Val ''completed''" None]
    show ?thesis using legacy by (auto simp: r d' split: option.splits)
  qed
qed

theorem analytics_counters_witness:
  "map_option total_calls
     (call_analytics (store_with ''in-progress'') (''business-123'', ''2025-03-01'')) = Some 5 \<and>
   (\<exists>row. call_analytics
       (snd (handleRetellWebhook all_served (bare_event (Val ''call_started''))
          (store_with ''in-progress''))) (''business-123'', ''2025-03-01'') = Some row \<and>
      total_calls row = 6 \<and> successful_notifications row = 2 \<and> failed_notifications row = 1) \<and>
   call_analytics (snd (handleRetellWebhook all_served analyzed_event (store_with ''in-progress''))) =
     call_analytics (store_with ''in-progress'')"
proof -
  let ?w = "bare_event (Val ''call_started'')"
  let ?d = "store_with ''in-progress''"
  have f: "findBusinessByPhoneNumber all_served ?d (w_to_number ?w) = Some plumber"
    using find_plumber[of "''in-progress''"] by (simp add: bare_event_def)
  have h: "handleRetellWebhook all_served ?w ?d = handleCallStarted all_served ?w plumber ?d"
    using f by (simp add: handleRetellWebhook_def bare_event_def)
  have s1: "o_select_call all_served = Served" and s2: "o_write_call all_served = Served"
    and s3: "o_select_analytics all_served = Served" and s4: "o_write_analytics all_served = Served"
    and t: "today all_served = ''2025-03-01''"
    by (simp_all add: all_served_def)
  from createOrUpdateCall_served[OF s1 s2, of ?w "b_id plumber" empty_info "Val ''in-progress''" ?d]
  obtain res where res: "handleRetellWebhook all_served ?w ?d =
      (Inr res, snd (handleRetellWebhook all_served ?w ?d))" and b: "r_business_id res = ''business-123''"
    unfolding h by (auto simp: handleCallStarted_eq plumber_def)
  have ev: "event_type ?w \<noteq> Val ''call_analyzed''" "event_type ?w \<noteq> Val ''call_ended''"
    by (simp_all add: bare_event_def)
  have old: "call_analytics ?d (''business-123'', ''2025-03-01'') =
      Some \<lparr>total_calls = 5, successful_notifications = 2, failed_notifications = 1\<rparr>"
    by (simp add: store_with_def)
  from analytics_counters[OF res] ev s3 s4
  have 1: "\<exists>row. call_analytics (snd (handleRetellWebhook all_served ?w ?d))
       (''business-123'', ''2025-03-01'') = Some row \<and>
      total_calls row = 6 \<and> successful_notifications row = 2 \<and> failed_notifications row = 1"
    by (auto simp: b t old)
  have f': "findBusinessByPhoneNumber all_served ?d (w_to_number analyzed_event) = Some plumber"
    using find_plumber[of "''in-progress''"] by (simp add: analyzed_event_def bare_event_def)
  have h': "handleRetellWebhook all_served analyzed_event ?d =
      handleCallAnalyzed all_served analyzed_event plumber ?d"
    using f' by (simp add: handleRetellWebhook_def analyzed_event_def bare_event_def)
  from createOrUpdateCall_served[OF s1 s2, of analyzed_event "b_id plumber"
      "extract_from (transcript_of analyzed_event)" "Val ''completed''" ?d]
  obtain res' where res': "handleRetellWebhook all_served analyzed_event ?d =
      (Inr res', snd (handleRetellWebhook all_served analyzed_event ?d))"
    unfolding h' by (auto simp: handleCallAnalyzed_eq)
  have ev': "event_type analyzed_event = Val ''call_analyzed''"
    by (simp add: analyzed_event_def bare_event_def)
  from analytics_counters[OF res'] ev'
  have 2: "call_analytics (snd (handleRetellWebhook all_served analyzed_event ?d)) = call_analytics ?d"
    by simp
  from 1 2 old show ?thesis by simp
qed

lemma select_business_Data:
  "select_business out table p = Data b \<Longrightarrow>
   b \<in> set table \<and> is_active b \<and> phone_number b = filter_text p"
proof -
  assume a: "select_business out table p = Data b"
  then have "filter (\<lambda>b. phone_number b = filter_text p \<and> is_active b = True) table = [b]"
    by (auto simp: select_business_def split: outcome.splits list.splits)
  then have "b \<in> set (filter (\<lambda>b. phone_number b = filter_text p \<and> is_active b = True) table)"
    by simp
  then show ?thesis by simp
qed

lemma select_business_none:
  "\<forall>b \<in> set table. phone_number b = filter_text p \<longrightarrow> \<not> is_active b \<Longrightarrow>
   \<exists>m. select_business out table p = ErrorReply m \<or> select_business out table p = Raised m"
proof -
  assume "\<forall>b \<in> set table. phone_number b = filter_text p \<longrightarrow> \<not> is_active b"
  then have "filter (\<lambda>b. phone_number b = filter_text p \<and> is_active b = True) table = []"
    by (auto simp: filter_empty_conv)
  then show ?thesis
    by (auto simp: select_business_def split: outcome.splits)
qed

text \<open>
  Claim C5: when the lookup of the business by the normalized \<open>to_number\<close> returns
  \<open>null\<close>, the event fails with the error of the missing business and the store is
  unchanged. A business the lookup returns is one of the table, is active and has the
  normalized number; when no active business of the table has that number the lookup
  returns \<open>null\<close>.
\<close>

theorem unresolved_business_fails:
  "(findBusinessByPhoneNumber e d (w_to_number w) = None \<longrightarrow>
      handleRetellWebhook e w d = (Inl (BusinessNotFound (w_to_number w)), d)) \<and>
   (findBusinessByPhoneNumber e d p = Some b \<longrightarrow>
      b \<in> set (businesses d) \<and> is_active b \<and>
      phone_number b = filter_text (normalizePhoneNumber p)) \<and>
   ((\<forall>b \<in> set (businesses d).
        phone_number b = filter_text (normalizePhoneNumber p) \<longrightarrow> \<not> is_active b) \<longrightarrow>
      findBusinessByPhoneNumber e d p = None)"
proof (intro conjI impI)
  assume "findBusinessByPhoneNumber e d (w_to_number w) = None"
  then show "handleRetellWebhook e w d = (Inl (BusinessNotFound (w_to_number w)), d)"
    by (simp add: handleRetellWebhook_def)
next
  assume a: "findBusinessByPhoneNumber e d p = Some b"
  then have s: "select_business (o_find_business e) (businesses d) (normalizePhoneNumber p) = Data b"
    by (auto simp: findBusinessByPhoneNumber_def Let_def split: reply.splits)
  from select_business_Data[OF s]
  show "b \<in> set (businesses d)" "is_active b"
    "phone_number b = filter_text (normalizePhoneNumber p)"
    by simp_all
next
  assume "\<forall>b \<in> set (businesses d).
        phone_number b = filter_text (normalizePhoneNumber p) \<longrightarrow> \<not> is_active b"
  from select_business_none[OF this, of "o_find_business e"]
  show "findBusinessByPhoneNumber e d p = None"
    by (auto simp: findBusinessByPhoneNumber_def Let_def)
qed

theorem unresolved_business_fails_witness:
  "handleRetellWebhook all_served (bare_event (Val ''call_started'')) closed_store =
     (Inl (BusinessNotFound (Val ''(555) 987-6543'')), closed_store) \<and>
   findBusinessByPhoneNumber all_served (store_with ''completed'') (Val ''(555) 987-6543'') =
     Some plumber \<and>
   plumber \<in> set (businesses (store_with ''completed'')) \<and> is_active plumber \<and>
   phone_number plumber = ''+15559876543''"
proof -
  let ?w = "bare_event (Val ''call_started'')"
  have "\<forall>b \<in> set (businesses closed_store).
        phone_number b = filter_text (normalizePhoneNumber (w_to_number ?w)) \<longrightarrow> \<not> is_active b"
    by (simp add: closed_store_def)
  with unresolved_business_fails[of all_served closed_store ?w "w_to_number ?w"]
  have "handleRetellWebhook all_served ?w closed_store =
     (Inl (BusinessNotFound (w_to_number ?w)), closed_store)"
    by blast
  then have 1: "handleRetellWebhook all_served ?w closed_store =
     (Inl (BusinessNotFound (Val ''(555) 987-6543'')), closed_store)"
    by (simp add: bare_event_def)
  have n: "filter_text (normalizePhoneNumber (Val ''(555) 987-6543'')) = ''+15559876543''"
    by (simp add: normalizePhoneNumber_def truthy_def is_digit_def filter_text_def)
  from unresolved_business_fails[of all_served "store_with ''completed''" ?w
      "Val ''(555) 987-6543''" plumber] find_plumber[of "''completed''"]
  have "plumber \<in> set (businesses (store_with ''completed'')) \<and> is_active plumber \<and>
      phone_number plumber = ''+15559876543''"
    by (simp add: n)
  with 1 find_plumber[of "''completed''"] show ?thesis by simp
qed

lemma handleCallAnalyzed_commit:
  "createOrUpdateCall e w (b_id b) (extract_from (transcript_of w)) (Val ''completed'') d =
     (Inr callRecord, d1) \<Longrightarrow>
   (\<exists>res. fst (handleCallAnalyzed e w b d) = Inr res) \<and>
   (o_update_notification e \<noteq> Served \<longrightarrow> snd (handleCallAnalyzed e w b d) = d1)"
  by (simp add: handleCallAnalyzed_eq updateCallNotificationStatus_state)

lemma handleLegacyWebhook_commit:
  "createOrUpdateCall e w (b_id b)
     (if w_call_status w = Val ''completed'' then extract_from (transcript_of w) else empty_info)
     (w_call_status w) d = (Inr callRecord, d1) \<Longrightarrow>
   (\<exists>res. fst (handleLegacyWebhook e w b d) = Inr res) \<and>
   (o_update_notification e \<noteq> Served \<longrightarrow> calls (snd (handleLegacyWebhook e w b d)) = calls d1)"
  by (simp add: handleLegacyWebhook_eq updateCallNotificationStatus_state updateCallAnalytics_frame)

lemma handleCallStarted_commit:
  "createOrUpdateCall e w (b_id b) empty_info (Val ''in-progress'') d = (Inr callRecord, d1) \<Longrightarrow>
   (\<exists>res. fst (handleCallStarted e w b d) = Inr res) \<and>
   calls (snd (handleCallStarted e w b d)) = calls d1"
  by (simp add: handleCallStarted_eq updateCallAnalytics_frame)

lemma handleCallEnded_commit:
  "updateCallStatus e (call_id w) ''completed'' d = (Inr callRecord, d1) \<Longrightarrow>
   (\<exists>res. fst (handleCallEnded e w b d) = Inr res) \<and>
   calls (snd (handleCallEnded e w b d)) = calls d1"
  by (simp add: handleCallEnded_eq updateCallAnalytics_frame)

text \<open>
  Claim C10: \<open>updateCallNotificationStatus\<close> and \<open>updateCallAnalytics\<close> return normally
  under every outcome of their store requests; a refused or throwing notification write
  leaves the store as it is, and the analytics update never touches a call row. So once
  \<open>createOrUpdateCall\<close> (for an Ended event, \<open>updateCallStatus\<close>) has committed the call
  row, the handler returns a result, and the call rows are the committed ones unless the
  notification write is served.
\<close>

theorem store_errors_after_commit:
  "fst (updateCallNotificationStatus e cid n d) = Inr () \<and>
   (o_update_notification e \<noteq> Served \<longrightarrow> snd (updateCallNotificationStatus e cid n d) = d) \<and>
   fst (updateCallAnalytics e bid cc et d) = Inr () \<and>
   calls (snd (updateCallAnalytics e bid cc et d)) = calls d \<and>
   (createOrUpdateCall e w (b_id b) (extract_from (transcript_of w)) (Val ''completed'') d =
      (Inr callRecord, d1) \<longrightarrow>
    (\<exists>res. fst (handleCallAnalyzed e w b d) = Inr res) \<and>
    (o_update_notification e \<noteq> Served \<longrightarrow> snd (handleCallAnalyzed e w b d) = d1)) \<and>
   (createOrUpdateCall e w (b_id b)
      (if w_call_status w = Val ''completed'' then extract_from (transcript_of w) else empty_info)
      (w_call_status w) d = (Inr callRecord, d1) \<longrightarrow>
    (\<exists>res. fst (handleLegacyWebhook e w b d) = Inr res) \<and>
    (o_update_notification e \<noteq> Served \<longrightarrow>
       calls (snd (handleLegacyWebhook e w b d)) = calls d1)) \<and>
   (createOrUpdateCall e w (b_id b) empty_info (Val ''in-progress'') d = (Inr callRecord, d1) \<longrightarrow>
    (\<exists>res. fst (handleCallStarted e w b d) = Inr res) \<and>
    calls (snd (handleCallStarted e w b d)) = calls d1) \<and>
   (updateCallStatus e (call_id w) ''completed'' d = (Inr callRecord, d1) \<longrightarrow>
    (\<exists>res. fst (handleCallEnded e w b d) = Inr res) \<and>
    calls (snd (handleCallEnded e w b d)) = calls d1)"
  using handleCallAnalyzed_commit[of e w b d callRecord d1]
    handleLegacyWebhook_commit[of e w b d callRecord d1]
    handleCallStarted_commit[of e w b d callRecord d1]
    handleCallEnded_commit[of e w d callRecord d1 b]
  by (simp add: updateCallNotificationStatus_returns updateCallNotificationStatus_state
      updateCallAnalytics_returns updateCallAnalytics_frame)

lemma failing_writes_outcomes:
  "o_select_call failing_writes = Served" "o_write_call failing_writes = Served"
  "o_update_status failing_writes = Served" "o_update_notification failing_writes \<noteq> Served"
  by (simp_all add: failing_writes_def all_served_def)

theorem store_errors_after_commit_witness:
  "map_sum id success
     (fst (handleCallAnalyzed failing_writes analyzed_event plumber (store_with ''in-progress''))) =
     Inr True \<and>
   snd (handleCallAnalyzed failing_writes analyzed_event plumber (store_with ''in-progress'')) =
   snd (createOrUpdateCall failing_writes analyzed_event (b_id plumber)
          (extract_from (transcript_of analyzed_event)) (Val ''completed'')
          (store_with ''in-progress'')) \<and>
   updateCallAnalytics failing_writes ''business-123'' False (Some ''started'')
     (store_with ''in-progress'') = (Inr (), store_with ''in-progress'') \<and>
   map_sum id success
     (fst (handleLegacyWebhook failing_writes legacy_event plumber (store_with ''in-progress''))) =
     Inr True \<and>
   calls (snd (handleLegacyWebhook failing_writes legacy_event plumber (store_with ''in-progress''))) =
   calls (snd (createOrUpdateCall failing_writes legacy_event (b_id plumber)
          (extract_from (transcript_of legacy_event)) (Val ''completed'')
          (store_with ''in-progress''))) \<and>
   map_sum id success
     (fst (handleCallStarted failing_writes (bare_event (Val ''call_started'')) plumber
        (store_with ''completed''))) = Inr True \<and>
   calls (snd (handleCallStarted failing_writes (bare_event (Val ''call_started'')) plumber
        (store_with ''completed''))) =
   calls (snd (createOrUpdateCall failing_writes (bare_event (Val ''call_started'')) (b_id plumber)
          empty_info (Val ''in-progress'') (store_with ''completed''))) \<and>
   map_sum id success
     (fst (handleCallEnded failing_writes ended_event plumber (store_with ''in-progress''))) =
     Inr True \<and>
   calls (snd (handleCallEnded failing_writes ended_event plumber (store_with ''in-progress''))) =
   calls (snd (updateCallStatus failing_writes ''call-1'' ''completed'' (store_with ''in-progress'')))"
proof -
  let ?d = "store_with ''in-progress''"
  let ?dc = "store_with ''completed''"
  let ?s = "bare_event (Val ''call_started'')"
  let ?ca = "createOrUpdateCall failing_writes analyzed_event (b_id plumber)
          (extract_from (transcript_of analyzed_event)) (Val ''completed'') ?d"
  let ?cl = "createOrUpdateCall failing_writes legacy_event (b_id plumber)
          (extract_from (transcript_of legacy_event)) (Val ''completed'') ?d"
  let ?cs = "createOrUpdateCall failing_writes ?s (b_id plumber) empty_info (Val ''in-progress'') ?dc"
  let ?ce = "updateCallStatus failing_writes ''call-1'' ''completed'' ?d"
  note o = failing_writes_outcomes
  have ls: "w_call_status legacy_event = Val ''completed''"
    by (simp add: legacy_event_def bare_event_def)
  have ce: "call_id ended_event = ''call-1''"
    by (simp add: ended_event_def bare_event_def)
  from createOrUpdateCall_served[OF o(1) o(2), of analyzed_event "b_id plumber"
      "extract_from (transcript_of analyzed_event)" "Val ''completed''" ?d]
  obtain ra da where ca: "?ca = (Inr ra, da)" by auto
  from createOrUpdateCall_served[OF o(1) o(2), of legacy_event "b_id plumber"
      "extract_from (transcript_of legacy_event)" "Val ''completed''" ?d]
  obtain rl dl where cl: "?cl = (Inr rl, dl)" by auto
  from createOrUpdateCall_served[OF o(1) o(2), of ?s "b_id plumber" empty_info
      "Val ''in-progress''" ?dc]
  obtain rs ds where cs: "?cs = (Inr rs, ds)" by auto
  obtain re de where ce': "?ce = (Inr re, de)"
    by (simp add: updateCallStatus_def update_returning_def o store_with_def)
  from store_errors_after_commit[of failing_writes _ _ ?d "''business-123''" False
      "Some ''started''" analyzed_event plumber ra da] ca o(4)
  have a1: "\<exists>res. fst (handleCallAnalyzed failing_writes analyzed_event plumber ?d) = Inr res"
    and a2: "snd (handleCallAnalyzed failing_writes analyzed_event plumber ?d) = da"
    and a3: "fst (updateCallAnalytics failing_writes ''business-123'' False (Some ''started'') ?d) = Inr ()"
    by simp_all
  have a4: "snd (updateCallAnalytics failing_writes ''business-123'' False (Some ''started'') ?d) = ?d"
    by (simp add: updateCallAnalytics_def select_single_def failing_writes_def all_served_def
        catch_and_log_def)
  from a3 a4 have a5: "updateCallAnalytics failing_writes ''business-123'' False (Some ''started'') ?d =
      (Inr (), ?d)"
    by (metis prod.collapse)
  from ca have a6: "map_sum id success
     (fst (handleCallAnalyzed failing_writes analyzed_event plumber ?d)) = Inr True"
    by (simp add: handleCallAnalyzed_eq)
  from store_errors_after_commit[of failing_writes _ _ ?d _ _ _ legacy_event plumber rl dl]
    cl o(4) ls
  have l1: "\<exists>res. fst (handleLegacyWebhook failing_writes legacy_event plumber ?d) = Inr res"
    and l2: "calls (snd (handleLegacyWebhook failing_writes legacy_event plumber ?d)) =
      calls dl"
    by simp_all
  from cl ls have l3: "map_sum id success
     (fst (handleLegacyWebhook failing_writes legacy_event plumber ?d)) = Inr True"
    by (simp add: handleLegacyWebhook_eq)
  from store_errors_after_commit[of failing_writes _ _ ?dc _ _ _ ?s plumber rs ds] cs
  have s1: "\<exists>res. fst (handleCallStarted failing_writes ?s plumber ?dc) = Inr res"
    and s2: "calls (snd (handleCallStarted failing_writes ?s plumber ?dc)) = calls ds"
    by simp_all
  from cs have s3: "map_sum id success (fst (handleCallStarted failing_writes ?s plumber ?dc)) =
      Inr True"
    by (simp add: handleCallStarted_eq)
  from store_errors_after_commit[of failing_writes _ _ ?d _ _ _ ended_event plumber re de]
    ce' ce
  have e1: "\<exists>res. fst (handleCallEnded failing_writes ended_event plumber ?d) = Inr res"
    and e2: "calls (snd (handleCallEnded failing_writes ended_event plumber ?d)) = calls de"
    by simp_all
  from ce' ce have e3: "map_sum id success (fst (handleCallEnded failing_writes ended_event plumber ?d)) =
      Inr True"
    by (simp add: handleCallEnded_eq)
  from a6 a2 a5 l3 l2 s3 s2 e3 e2 show ?thesis by (simp add: ca cl cs ce')
qed

end
